theory Spec2Isabelle
  imports Main "HOL-Library.Word" "HOL-Library.Sublist"
begin

unbundle bit_operations_syntax

section \<open>Identifier generator\<close>

text \<open>
  Both scripts mint identifiers with
  \<^verbatim>\<open>str(uuid.uuid4()).replace('-', '').upper()[:24]\<close>.
  The sixteen bytes that \<^verbatim>\<open>uuid.uuid4\<close> reads from the operating system are the
  only input: they are a parameter of the model, a 128-bit word read big-endian.  The
  standard library then fixes the variant and version bits and prints the value as 32
  lower-case hexadecimal digits in groups of 8-4-4-4-12.
\<close>

definition uuid4 :: "128 word \<Rightarrow> 128 word" where
  "uuid4 r =
     (let i = r AND NOT (push_bit 48 0xc000);
          i = i OR push_bit 48 0x8000;
          i = i AND NOT (push_bit 64 0xf000);
          i = i OR push_bit 76 4
      in i)"

definition hexdigit :: "nat \<Rightarrow> char" where
  "hexdigit n = ''0123456789abcdef'' ! n"

text \<open>\<^verbatim>\<open>'%032x' % n\<close>: 32 digits, most significant first; each is a nibble of the value.\<close>

definition hex32 :: "128 word \<Rightarrow> string" where
  "hex32 w = map (\<lambda>k. hexdigit (unat (drop_bit (4 * (31 - k)) w AND 15))) [0..<32]"

text \<open>The Python slice \<^verbatim>\<open>s[i:j]\<close> for \<open>0 \<le> i \<le> j\<close>.\<close>

definition slice :: "nat \<Rightarrow> nat \<Rightarrow> 'a list \<Rightarrow> 'a list" where
  "slice i j s = take (j - i) (drop i s)"

definition str_uuid :: "128 word \<Rightarrow> string" where
  "str_uuid u =
     (let hex = hex32 u
      in slice 0 8 hex @ ''-'' @ slice 8 12 hex @ ''-'' @ slice 12 16 hex @ ''-'' @
         slice 16 20 hex @ ''-'' @ drop 20 hex)"

text \<open>
  \<^verbatim>\<open>s.replace(old, new)\<close>: every non-overlapping occurrence of \<open>old\<close>, found from
  the left, is replaced.  An empty \<open>old\<close> matches before every character and at the end.
\<close>

function replace :: "string \<Rightarrow> string \<Rightarrow> string \<Rightarrow> string" where
  "replace old new s =
     (if old = [] then new @ concat (map (\<lambda>c. c # new) s)
      else if s = [] then []
      else if take (length old) s = old then new @ replace old new (drop (length old) s)
      else hd s # replace old new (tl s))"
  by pat_completeness auto
termination
  by (relation "measure (\<lambda>(old, new, s). length s)") auto

declare replace.simps [simp del]

text \<open>\<^verbatim>\<open>s.upper()\<close> on ASCII text: the letters a to z move to A to Z.\<close>

definition upper_char :: "char \<Rightarrow> char" where
  "upper_char c =
     (case map_of (zip ''abcdefghijklmnopqrstuvwxyz'' ''ABCDEFGHIJKLMNOPQRSTUVWXYZ'') c of
        Some u \<Rightarrow> u
      | None \<Rightarrow> c)"

definition upper :: "string \<Rightarrow> string" where
  "upper s = map upper_char s"

definition generate_uuid :: "128 word \<Rightarrow> string" where
  "generate_uuid r = take 24 (upper (replace ''-'' [] (str_uuid (uuid4 r))))"

definition is_upper_alnum :: "char \<Rightarrow> bool" where
  "is_upper_alnum c = (c \<in> set ''0123456789ABCDEFGHIJKLMNOPQRSTUVWXYZ'')"
section \<open>Project synthesizer\<close>

text \<open>
  \<^verbatim>\<open>create_xcodeproj.py\<close> builds the project description by appending text to one
  string.  Every piece it appends is a sequence of whole lines, so the model keeps the
  text as the list of the lines appended, each with its line break, and the text written to
  disk is their concatenation.  \<open>ln n s\<close> is the line \<open>s\<close> behind \<open>n\<close> tab characters.
\<close>

type_synonym pbx_id = string

definition ln :: "nat \<Rightarrow> string \<Rightarrow> string" where
  "ln n s = replicate n (CHR 0x09) @ s @ [CHR 0x0A]"

subsection \<open>The text templates\<close>

text \<open>Lines 129 to 138: the opening of the document.\<close>

definition pbx_header :: "string list" where
  \<open>pbx_header =
    [ln 0 ''// !$*UTF8*$!'',
     ln 0 ''{'',
     ln 1 ''archiveVersion = 1;'',
     ln 1 ''classes = {'',
     ln 1 ''};'',
     ln 1 ''objectVersion = 56;'',
     ln 1 ''objects = {'',
     ln 0 [],
     ln 0 ''/* Begin PBXBuildFile section */'']\<close>

text \<open>Line 146: one build-file entry.\<close>

definition build_file_entry :: "pbx_id \<Rightarrow> string \<Rightarrow> pbx_id \<Rightarrow> string" where
  \<open>build_file_entry build_file_uuid swift_file file_ref_uuid =
    ln 2 (build_file_uuid @ '' /* '' @ swift_file @ '' in Sources */ = {isa = PBXBuildFile; fileRef = '' @ file_ref_uuid @ '' /* '' @ swift_file @ '' */; };'')\<close>

text \<open>Lines 148 to 151.\<close>

definition pbx_file_reference_open :: "string list" where
  \<open>pbx_file_reference_open =
    [ln 0 ''/* End PBXBuildFile section */'',
     ln 0 [],
     ln 0 ''/* Begin PBXFileReference section */'']\<close>

text \<open>Lines 157 and 158: the two fixed file references.\<close>

definition app_reference_entry :: "pbx_id \<Rightarrow> string \<Rightarrow> string" where
  \<open>app_reference_entry app_uuid project_name =
    ln 2 (app_uuid @ '' /* '' @ project_name @ ''.app */ = {isa = PBXFileReference; explicitFileType = wrapper.application; includeInIndex = 0; path = '' @ project_name @ ''.app; sourceTree = BUILT_PRODUCTS_DIR; };'')\<close>

definition info_plist_entry :: "pbx_id \<Rightarrow> string" where
  \<open>info_plist_entry info_plist_uuid =
    ln 2 (info_plist_uuid @ '' /* Info.plist */ = {isa = PBXFileReference; lastKnownFileType = text.plist.xml; path = Info.plist; sourceTree = "<group>"; };'')\<close>

text \<open>Line 162: one file reference; the path value is the relative path, in quotes.\<close>

definition file_reference_entry :: "pbx_id \<Rightarrow> string \<Rightarrow> string" where
  \<open>file_reference_entry file_ref_uuid swift_file =
    ln 2 (file_ref_uuid @ '' /* '' @ swift_file @ '' */ = {isa = PBXFileReference; lastKnownFileType = sourcecode.swift; path = "'' @ swift_file @ ''"; sourceTree = "<group>"; };'')\<close>

text \<open>Lines 164 to 167.\<close>

definition pbx_frameworks_open :: "string list" where
  \<open>pbx_frameworks_open =
    [ln 0 ''/* End PBXFileReference section */'',
     ln 0 [],
     ln 0 ''/* Begin PBXFrameworksBuildPhase section */'']\<close>

text \<open>
  Lines 170 to 245, one formatted string: the frameworks build phase, the group, the
  target, the project object and the opening of the sources build phase.  Six of its
  fields are calls of \<^verbatim>\<open>self.generate_uuid()\<close> written in the template itself
  (lines 183, 184, 195, 222, 231 and 241); they are the parameters
  \<open>children_app_uuid\<close>, \<open>children_products_uuid\<close>, \<open>build_phases_sources_uuid\<close>,
  \<open>project_config_list_ref_uuid\<close>, \<open>product_ref_group_uuid\<close> and \<open>sources_phase_uuid\<close>.
\<close>

definition pbx_objects :: "string \<Rightarrow> pbx_id \<Rightarrow> pbx_id \<Rightarrow> pbx_id \<Rightarrow> pbx_id \<Rightarrow> pbx_id \<Rightarrow> pbx_id \<Rightarrow> pbx_id \<Rightarrow> pbx_id \<Rightarrow> pbx_id \<Rightarrow> pbx_id \<Rightarrow> pbx_id \<Rightarrow> pbx_id \<Rightarrow> string list" where
  \<open>pbx_objects project_name frameworks_uuid main_group_uuid children_app_uuid children_products_uuid target_uuid build_config_list_uuid build_phases_sources_uuid app_uuid project_uuid project_config_list_ref_uuid product_ref_group_uuid sources_phase_uuid =
    [ln 2 (frameworks_uuid @ '' /* Frameworks */ = {''),
     ln 3 ''isa = PBXFrameworksBuildPhase;'',
     ln 3 ''buildActionMask = 2147483647;'',
     ln 3 ''files = ('',
     ln 3 '');'',
     ln 3 ''runOnlyForDeploymentPostprocessing = 0;'',
     ln 2 ''};'',
     ln 0 ''/* End PBXFrameworksBuildPhase section */'',
     ln 0 [],
     ln 0 ''/* Begin PBXGroup section */'',
     ln 2 (main_group_uuid @ '' = {''),
     ln 3 ''isa = PBXGroup;'',
     ln 3 ''children = ('',
     ln 4 (children_app_uuid @ '' /* '' @ project_name @ '' */,''),
     ln 4 (children_products_uuid @ '' /* Products */,''),
     ln 3 '');'',
     ln 3 ''sourceTree = "<group>";'',
     ln 2 ''};'',
     ln 0 ''/* End PBXGroup section */'',
     ln 0 [],
     ln 0 ''/* Begin PBXNativeTarget section */'',
     ln 2 (target_uuid @ '' /* '' @ project_name @ '' */ = {''),
     ln 3 ''isa = PBXNativeTarget;'',
     ln 3 (''buildConfigurationList = '' @ build_config_list_uuid @ '' /* Build configuration list for PBXNativeTarget "'' @ project_name @ ''" */;''),
     ln 3 ''buildPhases = ('',
     ln 4 (build_phases_sources_uuid @ '' /* Sources */,''),
     ln 4 (frameworks_uuid @ '' /* Frameworks */,''),
     ln 3 '');'',
     ln 3 ''buildRules = ('',
     ln 3 '');'',
     ln 3 ''dependencies = ('',
     ln 3 '');'',
     ln 3 (''name = '' @ project_name @ '';''),
     ln 3 (''productName = '' @ project_name @ '';''),
     ln 3 (''productReference = '' @ app_uuid @ '' /* '' @ project_name @ ''.app */;''),
     ln 3 ''productType = "com.apple.product-type.application";'',
     ln 2 ''};'',
     ln 0 ''/* End PBXNativeTarget section */'',
     ln 0 [],
     ln 0 ''/* Begin PBXProject section */'',
     ln 2 (project_uuid @ '' /* Project object */ = {''),
     ln 3 ''isa = PBXProject;'',
     ln 3 ''attributes = {'',
     ln 4 ''BuildIndependentTargetsInParallel = 1;'',
     ln 4 ''LastSwiftUpdateCheck = 1500;'',
     ln 4 ''LastUpgradeCheck = 1500;'',
     ln 4 ''TargetAttributes = {'',
     ln 5 (target_uuid @ '' = {''),
     ln 6 ''CreatedOnToolsVersion = 15.0;'',
     ln 5 ''};'',
     ln 4 ''};'',
     ln 3 ''};'',
     ln 3 (''buildConfigurationList = '' @ project_config_list_ref_uuid @ '' /* Build configuration list for PBXProject "'' @ project_name @ ''" */;''),
     ln 3 ''compatibilityVersion = "Xcode 14.0";'',
     ln 3 ''developmentRegion = en;'',
     ln 3 ''hasScannedForEncodings = 0;'',
     ln 3 ''knownRegions = ('',
     ln 4 ''en,'',
     ln 4 ''Base,'',
     ln 3 '');'',
     ln 3 (''mainGroup = '' @ main_group_uuid @ '';''),
     ln 3 (''productRefGroup = '' @ product_ref_group_uuid @ '' /* Products */;''),
     ln 3 ''projectDirPath = "";'',
     ln 3 ''projectRoot = "";'',
     ln 3 ''targets = ('',
     ln 4 (target_uuid @ '' /* '' @ project_name @ '' */,''),
     ln 3 '');'',
     ln 2 ''};'',
     ln 0 ''/* End PBXProject section */'',
     ln 0 [],
     ln 0 ''/* Begin PBXSourcesBuildPhase section */'',
     ln 2 (sources_phase_uuid @ '' /* Sources */ = {''),
     ln 3 ''isa = PBXSourcesBuildPhase;'',
     ln 3 ''buildActionMask = 2147483647;'',
     ln 3 ''files = ('']\<close>

text \<open>Line 250: one entry of the sources build phase.\<close>

definition sources_entry :: "pbx_id \<Rightarrow> string \<Rightarrow> string" where
  \<open>sources_entry build_file_uuid swift_file =
    ln 4 (build_file_uuid @ '' /* '' @ swift_file @ '' in Sources */,'')\<close>

text \<open>Lines 252 to 258.\<close>

definition pbx_sources_close :: "string list" where
  \<open>pbx_sources_close =
    [ln 3 '');'',
     ln 3 ''runOnlyForDeploymentPostprocessing = 0;'',
     ln 2 ''};'',
     ln 0 ''/* End PBXSourcesBuildPhase section */'',
     ln 0 [],
     ln 0 ''/* Begin XCBuildConfiguration section */'']\<close>

text \<open>Lines 264 to 383: the project-level build configurations.\<close>

definition pbx_project_configurations :: "pbx_id \<Rightarrow> pbx_id \<Rightarrow> string list" where
  \<open>pbx_project_configurations debug_config_uuid release_config_uuid =
    [ln 2 (debug_config_uuid @ '' /* Debug */ = {''),
     ln 3 ''isa = XCBuildConfiguration;'',
     ln 3 ''buildSettings = {'',
     ln 4 ''ALWAYS_SEARCH_USER_PATHS = NO;'',
     ln 4 ''ASSETCATALOG_COMPILER_GENERATE_SWIFT_ASSET_SYMBOL_EXTENSIONS = YES;'',
     ln 4 ''CLANG_ANALYZER_NONNULL = YES;'',
     ln 4 ''CLANG_ANALYZER_NUMBER_OBJECT_CONVERSION = YES_AGGRESSIVE;'',
     ln 4 ''CLANG_CXX_LANGUAGE_STANDARD = "gnu++20";'',
     ln 4 ''CLANG_ENABLE_MODULES = YES;'',
     ln 4 ''CLANG_ENABLE_OBJC_ARC = YES;'',
     ln 4 ''CLANG_ENABLE_OBJC_WEAK = YES;'',
     ln 4 ''CLANG_WARN_BLOCK_CAPTURE_AUTORELEASING = YES;'',
     ln 4 ''CLANG_WARN_BOOL_CONVERSION = YES;'',
     ln 4 ''CLANG_WARN_COMMA = YES;'',
     ln 4 ''CLANG_WARN_CONSTANT_CONVERSION = YES;'',
     ln 4 ''CLANG_WARN_DEPRECATED_OBJC_IMPLEMENTATIONS = YES;'',
     ln 4 ''CLANG_WARN_DIRECT_OBJC_ISA_USAGE = YES_ERROR;'',
     ln 4 ''CLANG_WARN_DOCUMENTATION_COMMENTS = YES;'',
     ln 4 ''CLANG_WARN_EMPTY_BODY = YES;'',
     ln 4 ''CLANG_WARN_ENUM_CONVERSION = YES;'',
     ln 4 ''CLANG_WARN_INFINITE_RECURSION = YES;'',
     ln 4 ''CLANG_WARN_INT_CONVERSION = YES;'',
     ln 4 ''CLANG_WARN_NON_LITERAL_NULL_CONVERSION = YES;'',
     ln 4 ''CLANG_WARN_OBJC_IMPLICIT_RETAIN_SELF = YES;'',
     ln 4 ''CLANG_WARN_OBJC_LITERAL_CONVERSION = YES;'',
     ln 4 ''CLANG_WARN_OBJC_ROOT_CLASS = YES_ERROR;'',
     ln 4 ''CLANG_WARN_QUOTED_INCLUDE_IN_FRAMEWORK_HEADER = YES;'',
     ln 4 ''CLANG_WARN_RANGE_LOOP_ANALYSIS = YES;'',
     ln 4 ''CLANG_WARN_STRICT_PROTOTYPES = YES;'',
     ln 4 ''CLANG_WARN_SUSPICIOUS_MOVE = YES;'',
     ln 4 ''CLANG_WARN_UNGUARDED_AVAILABILITY = YES_AGGRESSIVE;'',
     ln 4 ''CLANG_WARN_UNREACHABLE_CODE = YES;'',
     ln 4 ''CLANG_WARN__DUPLICATE_METHOD_MATCH = YES;'',
     ln 4 ''COPY_PHASE_STRIP = NO;'',
     ln 4 ''DEBUG_INFORMATION_FORMAT = dwarf;'',
     ln 4 ''ENABLE_STRICT_OBJC_MSGSEND = YES;'',
     ln 4 ''ENABLE_TESTABILITY = YES;'',
     ln 4 ''ENABLE_USER_SCRIPT_SANDBOXING = YES;'',
     ln 4 ''GCC_C_LANGUAGE_STANDARD = gnu17;'',
     ln 4 ''GCC_DYNAMIC_NO_PIC = NO;'',
     ln 4 ''GCC_NO_COMMON_BLOCKS = YES;'',
     ln 4 ''GCC_OPTIMIZATION_LEVEL = 0;'',
     ln 4 ''GCC_PREPROCESSOR_DEFINITIONS = ('',
     ln 5 ''"DEBUG=1",'',
     ln 5 ''"$(inherited)",'',
     ln 4 '');'',
     ln 4 ''GCC_WARN_64_TO_32_BIT_CONVERSION = YES;'',
     ln 4 ''GCC_WARN_ABOUT_RETURN_TYPE = YES_ERROR;'',
     ln 4 ''GCC_WARN_UNDECLARED_SELECTOR = YES;'',
     ln 4 ''GCC_WARN_UNINITIALIZED_AUTOS = YES_AGGRESSIVE;'',
     ln 4 ''GCC_WARN_UNUSED_FUNCTION = YES;'',
     ln 4 ''GCC_WARN_UNUSED_VARIABLE = YES;'',
     ln 4 ''IPHONEOS_DEPLOYMENT_TARGET = 15.0;'',
     ln 4 ''LOCALIZATION_PREFERS_STRING_CATALOGS = YES;'',
     ln 4 ''MTL_ENABLE_DEBUG_INFO = INCLUDE_SOURCE;'',
     ln 4 ''MTL_FAST_MATH = YES;'',
     ln 4 ''ONLY_ACTIVE_ARCH = YES;'',
     ln 4 ''SDKROOT = iphoneos;'',
     ln 4 ''SWIFT_ACTIVE_COMPILATION_CONDITIONS = "DEBUG $(inherited)";'',
     ln 4 ''SWIFT_OPTIMIZATION_LEVEL = "-Onone";'',
     ln 3 ''};'',
     ln 3 ''name = Debug;'',
     ln 2 ''};'',
     ln 2 (release_config_uuid @ '' /* Release */ = {''),
     ln 3 ''isa = XCBuildConfiguration;'',
     ln 3 ''buildSettings = {'',
     ln 4 ''ALWAYS_SEARCH_USER_PATHS = NO;'',
     ln 4 ''ASSETCATALOG_COMPILER_GENERATE_SWIFT_ASSET_SYMBOL_EXTENSIONS = YES;'',
     ln 4 ''CLANG_ANALYZER_NONNULL = YES;'',
     ln 4 ''CLANG_ANALYZER_NUMBER_OBJECT_CONVERSION = YES_AGGRESSIVE;'',
     ln 4 ''CLANG_CXX_LANGUAGE_STANDARD = "gnu++20";'',
     ln 4 ''CLANG_ENABLE_MODULES = YES;'',
     ln 4 ''CLANG_ENABLE_OBJC_ARC = YES;'',
     ln 4 ''CLANG_ENABLE_OBJC_WEAK = YES;'',
     ln 4 ''CLANG_WARN_BLOCK_CAPTURE_AUTORELEASING = YES;'',
     ln 4 ''CLANG_WARN_BOOL_CONVERSION = YES;'',
     ln 4 ''CLANG_WARN_COMMA = YES;'',
     ln 4 ''CLANG_WARN_CONSTANT_CONVERSION = YES;'',
     ln 4 ''CLANG_WARN_DEPRECATED_OBJC_IMPLEMENTATIONS = YES;'',
     ln 4 ''CLANG_WARN_DIRECT_OBJC_ISA_USAGE = YES_ERROR;'',
     ln 4 ''CLANG_WARN_DOCUMENTATION_COMMENTS = YES;'',
     ln 4 ''CLANG_WARN_EMPTY_BODY = YES;'',
     ln 4 ''CLANG_WARN_ENUM_CONVERSION = YES;'',
     ln 4 ''CLANG_WARN_INFINITE_RECURSION = YES;'',
     ln 4 ''CLANG_WARN_INT_CONVERSION = YES;'',
     ln 4 ''CLANG_WARN_NON_LITERAL_NULL_CONVERSION = YES;'',
     ln 4 ''CLANG_WARN_OBJC_IMPLICIT_RETAIN_SELF = YES;'',
     ln 4 ''CLANG_WARN_OBJC_LITERAL_CONVERSION = YES;'',
     ln 4 ''CLANG_WARN_OBJC_ROOT_CLASS = YES_ERROR;'',
     ln 4 ''CLANG_WARN_QUOTED_INCLUDE_IN_FRAMEWORK_HEADER = YES;'',
     ln 4 ''CLANG_WARN_RANGE_LOOP_ANALYSIS = YES;'',
     ln 4 ''CLANG_WARN_STRICT_PROTOTYPES = YES;'',
     ln 4 ''CLANG_WARN_SUSPICIOUS_MOVE = YES;'',
     ln 4 ''CLANG_WARN_UNGUARDED_AVAILABILITY = YES_AGGRESSIVE;'',
     ln 4 ''CLANG_WARN_UNREACHABLE_CODE = YES;'',
     ln 4 ''CLANG_WARN__DUPLICATE_METHOD_MATCH = YES;'',
     ln 4 ''COPY_PHASE_STRIP = NO;'',
     ln 4 ''DEBUG_INFORMATION_FORMAT = "dwarf-with-dsym";'',
     ln 4 ''ENABLE_NS_ASSERTIONS = NO;'',
     ln 4 ''ENABLE_STRICT_OBJC_MSGSEND = YES;'',
     ln 4 ''ENABLE_USER_SCRIPT_SANDBOXING = YES;'',
     ln 4 ''GCC_C_LANGUAGE_STANDARD = gnu17;'',
     ln 4 ''GCC_NO_COMMON_BLOCKS = YES;'',
     ln 4 ''GCC_WARN_64_TO_32_BIT_CONVERSION = YES;'',
     ln 4 ''GCC_WARN_ABOUT_RETURN_TYPE = YES_ERROR;'',
     ln 4 ''GCC_WARN_UNDECLARED_SELECTOR = YES;'',
     ln 4 ''GCC_WARN_UNINITIALIZED_AUTOS = YES_AGGRESSIVE;'',
     ln 4 ''GCC_WARN_UNUSED_FUNCTION = YES;'',
     ln 4 ''GCC_WARN_UNUSED_VARIABLE = YES;'',
     ln 4 ''IPHONEOS_DEPLOYMENT_TARGET = 15.0;'',
     ln 4 ''LOCALIZATION_PREFERS_STRING_CATALOGS = YES;'',
     ln 4 ''MTL_ENABLE_DEBUG_INFO = NO;'',
     ln 4 ''MTL_FAST_MATH = YES;'',
     ln 4 ''SDKROOT = iphoneos;'',
     ln 4 ''SWIFT_COMPILATION_MODE = wholemodule;'',
     ln 4 ''VALIDATE_PRODUCT = YES;'',
     ln 3 ''};'',
     ln 3 ''name = Release;'',
     ln 2 ''};'']\<close>

text \<open>
  Lines 389 to 472: the target-level build configurations and the two configuration
  lists.  The pbx_id of the second list is again a call written in the template
  (line 459), the parameter \<open>project_config_list_uuid\<close>.
\<close>

definition pbx_target_configurations :: "string \<Rightarrow> string \<Rightarrow> pbx_id \<Rightarrow> pbx_id \<Rightarrow> pbx_id \<Rightarrow> pbx_id \<Rightarrow> pbx_id \<Rightarrow> pbx_id \<Rightarrow> pbx_id \<Rightarrow> string list" where
  \<open>pbx_target_configurations project_name bundle_id project_uuid build_config_list_uuid debug_config_uuid release_config_uuid target_debug_uuid target_release_uuid project_config_list_uuid =
    [ln 2 (target_debug_uuid @ '' /* Debug */ = {''),
     ln 3 ''isa = XCBuildConfiguration;'',
     ln 3 ''buildSettings = {'',
     ln 4 ''ASSETCATALOG_COMPILER_APPICON_NAME = AppIcon;'',
     ln 4 ''ASSETCATALOG_COMPILER_GLOBAL_ACCENT_COLOR_NAME = AccentColor;'',
     ln 4 ''CODE_SIGN_STYLE = Automatic;'',
     ln 4 ''CURRENT_PROJECT_VERSION = 1;'',
     ln 4 ''DEVELOPMENT_ASSET_PATHS = "";'',
     ln 4 ''ENABLE_PREVIEWS = YES;'',
     ln 4 ''GENERATE_INFOPLIST_FILE = NO;'',
     ln 4 (''INFOPLIST_FILE = '' @ project_name @ ''/Info.plist;''),
     ln 4 ''INFOPLIST_KEY_UIApplicationSceneManifest_Generation = YES;'',
     ln 4 ''INFOPLIST_KEY_UIApplicationSupportsIndirectInputEvents = YES;'',
     ln 4 ''INFOPLIST_KEY_UILaunchScreen_Generation = YES;'',
     ln 4 ''INFOPLIST_KEY_UISupportedInterfaceOrientations_iPad = "UIInterfaceOrientationPortrait UIInterfaceOrientationPortraitUpsideDown UIInterfaceOrientationLandscapeLeft UIInterfaceOrientationLandscapeRight";'',
     ln 4 ''INFOPLIST_KEY_UISupportedInterfaceOrientations_iPhone = "UIInterfaceOrientationPortrait UIInterfaceOrientationLandscapeLeft UIInterfaceOrientationLandscapeRight";'',
     ln 4 ''LD_RUNPATH_SEARCH_PATHS = ('',
     ln 5 ''"$(inherited)",'',
     ln 5 ''"@executable_path/Frameworks",'',
     ln 4 '');'',
     ln 4 ''MARKETING_VERSION = 1.0;'',
     ln 4 (''PRODUCT_BUNDLE_IDENTIFIER = '' @ bundle_id @ '';''),
     ln 4 ''PRODUCT_NAME = "$(TARGET_NAME)";'',
     ln 4 ''SWIFT_EMIT_LOC_STRINGS = YES;'',
     ln 4 ''SWIFT_VERSION = 5.0;'',
     ln 4 ''TARGETED_DEVICE_FAMILY = "1,2";'',
     ln 3 ''};'',
     ln 3 ''name = Debug;'',
     ln 2 ''};'',
     ln 2 (target_release_uuid @ '' /* Release */ = {''),
     ln 3 ''isa = XCBuildConfiguration;'',
     ln 3 ''buildSettings = {'',
     ln 4 ''ASSETCATALOG_COMPILER_APPICON_NAME = AppIcon;'',
     ln 4 ''ASSETCATALOG_COMPILER_GLOBAL_ACCENT_COLOR_NAME = AccentColor;'',
     ln 4 ''CODE_SIGN_STYLE = Automatic;'',
     ln 4 ''CURRENT_PROJECT_VERSION = 1;'',
     ln 4 ''DEVELOPMENT_ASSET_PATHS = "";'',
     ln 4 ''ENABLE_PREVIEWS = YES;'',
     ln 4 ''GENERATE_INFOPLIST_FILE = NO;'',
     ln 4 (''INFOPLIST_FILE = '' @ project_name @ ''/Info.plist;''),
     ln 4 ''INFOPLIST_KEY_UIApplicationSceneManifest_Generation = YES;'',
     ln 4 ''INFOPLIST_KEY_UIApplicationSupportsIndirectInputEvents = YES;'',
     ln 4 ''INFOPLIST_KEY_UILaunchScreen_Generation = YES;'',
     ln 4 ''INFOPLIST_KEY_UISupportedInterfaceOrientations_iPad = "UIInterfaceOrientationPortrait UIInterfaceOrientationPortraitUpsideDown UIInterfaceOrientationLandscapeLeft UIInterfaceOrientationLandscapeRight";'',
     ln 4 ''INFOPLIST_KEY_UISupportedInterfaceOrientations_iPhone = "UIInterfaceOrientationPortrait UIInterfaceOrientationLandscapeLeft UIInterfaceOrientationLandscapeRight";'',
     ln 4 ''LD_RUNPATH_SEARCH_PATHS = ('',
     ln 5 ''"$(inherited)",'',
     ln 5 ''"@executable_path/Frameworks",'',
     ln 4 '');'',
     ln 4 ''MARKETING_VERSION = 1.0;'',
     ln 4 (''PRODUCT_BUNDLE_IDENTIFIER = '' @ bundle_id @ '';''),
     ln 4 ''PRODUCT_NAME = "$(TARGET_NAME)";'',
     ln 4 ''SWIFT_EMIT_LOC_STRINGS = YES;'',
     ln 4 ''SWIFT_VERSION = 5.0;'',
     ln 4 ''TARGETED_DEVICE_FAMILY = "1,2";'',
     ln 3 ''};'',
     ln 3 ''name = Release;'',
     ln 2 ''};'',
     ln 0 ''/* End XCBuildConfiguration section */'',
     ln 0 [],
     ln 0 ''/* Begin XCConfigurationList section */'',
     ln 2 (build_config_list_uuid @ '' /* Build configuration list for PBXNativeTarget "'' @ project_name @ ''" */ = {''),
     ln 3 ''isa = XCConfigurationList;'',
     ln 3 ''buildConfigurations = ('',
     ln 4 (target_debug_uuid @ '' /* Debug */,''),
     ln 4 (target_release_uuid @ '' /* Release */,''),
     ln 3 '');'',
     ln 3 ''defaultConfigurationIsVisible = 0;'',
     ln 3 ''defaultConfigurationName = Release;'',
     ln 2 ''};'',
     ln 2 (project_config_list_uuid @ '' /* Build configuration list for PBXProject "'' @ project_name @ ''" */ = {''),
     ln 3 ''isa = XCConfigurationList;'',
     ln 3 ''buildConfigurations = ('',
     ln 4 (debug_config_uuid @ '' /* Debug */,''),
     ln 4 (release_config_uuid @ '' /* Release */,''),
     ln 3 '');'',
     ln 3 ''defaultConfigurationIsVisible = 0;'',
     ln 3 ''defaultConfigurationName = Release;'',
     ln 2 ''};'',
     ln 0 ''/* End XCConfigurationList section */'',
     ln 1 ''};'',
     ln 1 (''rootObject = '' @ project_uuid @ '' /* Project object */;''),
     ln 0 ''}'']\<close>

subsection \<open>The generator object and its random source\<close>

text \<open>
  The object of class \<^verbatim>\<open>XcodeprojGenerator\<close>.  Its dictionaries are partial maps.
  The operating system's random source is a sequence \<open>rnd\<close> of 128-bit values; \<open>draws\<close>
  counts how many of them the run has consumed, so the \<open>k\<close>-th call of
  \<^verbatim>\<open>generate_uuid\<close> in a run reads \<open>rnd k\<close>.
\<close>

type_synonym rand = "nat \<Rightarrow> 128 word"

datatype py_error = KeyError string | TemplateEscape

record generator =
  project_name :: string
  bundle_id :: string
  file_refs :: "string \<rightharpoonup> pbx_id"
  group_refs :: "string \<rightharpoonup> pbx_id"
  build_file_refs :: "string \<rightharpoonup> pbx_id"
  draws :: nat

text \<open>\<^verbatim>\<open>__init__\<close> (lines 8 to 13).\<close>

definition XcodeprojGenerator :: "string \<Rightarrow> string \<Rightarrow> generator" where
  "XcodeprojGenerator name bid =
     \<lparr>project_name = name, bundle_id = bid, file_refs = Map.empty, group_refs = Map.empty,
      build_file_refs = Map.empty, draws = 0\<rparr>"

text \<open>The method \<^verbatim>\<open>generate_uuid\<close> (lines 15 and 16): the pbx_id and the object after the draw.\<close>

definition self_generate_uuid :: "rand \<Rightarrow> generator \<Rightarrow> pbx_id \<times> generator" where
  "self_generate_uuid rnd g = (generate_uuid (rnd (draws g)), g\<lparr>draws := Suc (draws g)\<rparr>)"

subsection \<open>Discovery of the source files\<close>

text \<open>
  Lines 115 to 120 walk the directory named after the project.  A directory is the list of
  its files and the list of its named subdirectories, in the order the operating system
  lists them.  \<^verbatim>\<open>os.walk\<close> yields a directory before its subdirectories; \<open>walk\<close>
  keeps each directory's path relative to the top, which is what
  \<^verbatim>\<open>os.path.relpath(os.path.join(root, file), self.project_name)\<close> leaves of it.
\<close>

datatype fs_dir = Dir (dir_files: "string list") (dir_subdirs: "(string \<times> fs_dir) list")

definition rel_join :: "string \<Rightarrow> string \<Rightarrow> string" where
  "rel_join root name = (if root = [] then name else root @ ''/'' @ name)"

fun walk :: "string \<Rightarrow> fs_dir \<Rightarrow> (string \<times> string list \<times> string list) list" where
  "walk root (Dir files subdirs) =
     (root, map fst subdirs, files) #
     concat (map (\<lambda>(d, t). walk (rel_join root d) t) subdirs)"

definition endswith :: "string \<Rightarrow> string \<Rightarrow> bool" where
  "endswith s ending = (length ending \<le> length s \<and> drop (length s - length ending) s = ending)"

definition collect_swift_files :: "fs_dir \<Rightarrow> string list" where
  "collect_swift_files tree =
     concat (map (\<lambda>(root, dirs, files).
                    map (rel_join root) (filter (\<lambda>file. endswith file ''.swift'') files))
                 (walk [] tree))"

subsection \<open>Assembly\<close>

text \<open>The loop of lines 141 to 146: two identifiers per file, both dictionaries updated, one line appended.\<close>

fun add_build_files :: "rand \<Rightarrow> string list \<Rightarrow> generator \<times> string list \<Rightarrow> generator \<times> string list" where
  "add_build_files rnd [] (g, content) = (g, content)"
| "add_build_files rnd (swift_file # rest) (g, content) =
     (let (build_file_uuid, g) = self_generate_uuid rnd g;
          (file_ref_uuid, g) = self_generate_uuid rnd g;
          g = g\<lparr>build_file_refs := (build_file_refs g)(swift_file \<mapsto> build_file_uuid)\<rparr>;
          g = g\<lparr>file_refs := (file_refs g)(swift_file \<mapsto> file_ref_uuid)\<rparr>
      in add_build_files rnd rest
           (g, content @ [build_file_entry build_file_uuid swift_file file_ref_uuid]))"

text \<open>A dictionary read \<^verbatim>\<open>d[k]\<close> raises \<^verbatim>\<open>KeyError\<close> on a missing key.\<close>

definition lookup :: "(string \<rightharpoonup> string) \<Rightarrow> string \<Rightarrow> py_error + string" where
  "lookup d k = (case d k of None \<Rightarrow> Inl (KeyError k) | Some v \<Rightarrow> Inr v)"

text \<open>The loop of lines 160 to 162.\<close>

fun add_file_references :: "generator \<Rightarrow> string list \<Rightarrow> string list \<Rightarrow> py_error + string list" where
  "add_file_references g [] content = Inr content"
| "add_file_references g (swift_file # rest) content =
     (case lookup (file_refs g) swift_file of
        Inl e \<Rightarrow> Inl e
      | Inr file_ref_uuid \<Rightarrow>
          add_file_references g rest (content @ [file_reference_entry file_ref_uuid swift_file]))"

text \<open>The loop of lines 248 to 250.\<close>

fun add_sources :: "generator \<Rightarrow> string list \<Rightarrow> string list \<Rightarrow> py_error + string list" where
  "add_sources g [] content = Inr content"
| "add_sources g (swift_file # rest) content =
     (case lookup (build_file_refs g) swift_file of
        Inl e \<Rightarrow> Inl e
      | Inr build_file_uuid \<Rightarrow>
          add_sources g rest (content @ [sources_entry build_file_uuid swift_file]))"

text \<open>
  The body of \<^verbatim>\<open>generate_project_pbxproj\<close> after the discovery, lines 122 to 474, in
  the order of the source.  The fields of a formatted string are evaluated from left to
  right, so the identifiers written inside the templates are drawn in the order of their
  lines.
\<close>

definition pbxproj_lines :: "rand \<Rightarrow> string list \<Rightarrow> generator \<Rightarrow> py_error + string list" where
  "pbxproj_lines rnd swift_files g =
     (let (project_uuid, g) = self_generate_uuid rnd g;
          (main_group_uuid, g) = self_generate_uuid rnd g;
          (target_uuid, g) = self_generate_uuid rnd g;
          (build_config_list_uuid, g) = self_generate_uuid rnd g;
          content = pbx_header;
          (g, content) = add_build_files rnd swift_files (g, content);
          content = content @ pbx_file_reference_open;
          (app_uuid, g) = self_generate_uuid rnd g;
          (info_plist_uuid, g) = self_generate_uuid rnd g;
          content = content @ [app_reference_entry app_uuid (project_name g)];
          content = content @ [info_plist_entry info_plist_uuid]
      in case add_file_references g swift_files content of
           Inl e \<Rightarrow> Inl e
         | Inr content \<Rightarrow>
     (let content = content @ pbx_frameworks_open;
          (frameworks_uuid, g) = self_generate_uuid rnd g;
          (children_app_uuid, g) = self_generate_uuid rnd g;
          (children_products_uuid, g) = self_generate_uuid rnd g;
          (build_phases_sources_uuid, g) = self_generate_uuid rnd g;
          (project_config_list_ref_uuid, g) = self_generate_uuid rnd g;
          (product_ref_group_uuid, g) = self_generate_uuid rnd g;
          (sources_phase_uuid, g) = self_generate_uuid rnd g;
          content = content @
            pbx_objects (project_name g) frameworks_uuid main_group_uuid children_app_uuid
              children_products_uuid target_uuid build_config_list_uuid
              build_phases_sources_uuid app_uuid project_uuid project_config_list_ref_uuid
              product_ref_group_uuid sources_phase_uuid
      in case add_sources g swift_files content of
           Inl e \<Rightarrow> Inl e
         | Inr content \<Rightarrow>
     (let content = content @ pbx_sources_close;
          (debug_config_uuid, g) = self_generate_uuid rnd g;
          (release_config_uuid, g) = self_generate_uuid rnd g;
          content = content @ pbx_project_configurations debug_config_uuid release_config_uuid;
          (target_debug_uuid, g) = self_generate_uuid rnd g;
          (target_release_uuid, g) = self_generate_uuid rnd g;
          (project_config_list_uuid, g) = self_generate_uuid rnd g;
          content = content @
            pbx_target_configurations (project_name g) (bundle_id g) project_uuid
              build_config_list_uuid debug_config_uuid release_config_uuid target_debug_uuid
              target_release_uuid project_config_list_uuid
      in Inr content)))"

text \<open>The method itself: discovery, assembly, and the text returned.\<close>

definition generate_project_pbxproj :: "rand \<Rightarrow> fs_dir \<Rightarrow> generator \<Rightarrow> py_error + string" where
  "generate_project_pbxproj rnd tree g =
     (let swift_files = collect_swift_files tree
      in case pbxproj_lines rnd swift_files g of
           Inl e \<Rightarrow> Inl e
         | Inr content \<Rightarrow> Inr (concat content))"

subsection \<open>Reading the emitted text\<close>

text \<open>
  The lines of a section stand between its \<open>Begin\<close> and \<open>End\<close> marker lines; the entries
  of a \<open>files\<close> list stand between the line that opens the list and the line that closes
  it.  An entry's pbx_id is the 24 characters behind its indentation.
\<close>

definition begin_marker :: "string \<Rightarrow> string" where
  "begin_marker name = ln 0 (''/* Begin '' @ name @ '' section */'')"

definition end_marker :: "string \<Rightarrow> string" where
  "end_marker name = ln 0 (''/* End '' @ name @ '' section */'')"

definition between :: "string \<Rightarrow> string \<Rightarrow> string list \<Rightarrow> string list" where
  "between opening closing ls =
     takeWhile (\<lambda>l. l \<noteq> closing) (tl (dropWhile (\<lambda>l. l \<noteq> opening) ls))"

definition section_lines :: "string \<Rightarrow> string list \<Rightarrow> string list" where
  "section_lines name ls = between (begin_marker name) (end_marker name) ls"

definition files_list :: "string list \<Rightarrow> string list" where
  "files_list ls = between (ln 3 ''files = ('') (ln 3 '');'') ls"

definition entry_id :: "string \<Rightarrow> string" where
  "entry_id l = take 24 (dropWhile (\<lambda>c. c = CHR 0x09) l)"

text \<open>
  The entries of a \<open>buildPhases\<close> and of a \<open>children\<close> list; the lines that open an object
  (indented by two tabs, and not the closing brace) and the identifiers they define; and
  the identifier that a field \<open>key = \<dots>\<close> of an object refers to.
\<close>

definition build_phases :: "string list \<Rightarrow> string list" where
  "build_phases ls = between (ln 3 ''buildPhases = ('') (ln 3 '');'') ls"

definition children :: "string list \<Rightarrow> string list" where
  "children ls = between (ln 3 ''children = ('') (ln 3 '');'') ls"

definition indent :: "string \<Rightarrow> nat" where
  "indent l = length (takeWhile (\<lambda>c. c = CHR 0x09) l)"

definition is_object_line :: "string \<Rightarrow> bool" where
  "is_object_line l = (indent l = 2 \<and> l \<noteq> ln 2 ''};'')"

definition object_ids :: "string list \<Rightarrow> pbx_id list" where
  "object_ids ls = map entry_id (filter is_object_line ls)"

definition is_field :: "string \<Rightarrow> string \<Rightarrow> bool" where
  "is_field key l = (indent l = 3 \<and> take (length key + 3) (drop 3 l) = key @ '' = '')"

definition field_ids :: "string \<Rightarrow> string list \<Rightarrow> pbx_id list" where
  "field_ids key ls = map (\<lambda>l. take 24 (drop (length key + 6) l)) (filter (is_field key) ls)"

subsection \<open>The run in closed form\<close>

text \<open>
  Notions for the proofs.  \<open>nth_uuid rnd k\<close> is the identifier of the \<open>k\<close>-th draw;
  \<open>minted_pairs\<close> lists, file by file, the two identifiers the first loop mints;
  \<open>record_build\<close> and \<open>record_refs\<close> are the two dictionaries after that loop;
  \<open>pbxproj_text\<close> is the whole output with every identifier given by the number of its
  draw; \<open>plain\<close> says that a line's text does not start with a tab.
\<close>

definition nth_uuid :: "rand \<Rightarrow> nat \<Rightarrow> string" where
  "nth_uuid rnd k = generate_uuid (rnd k)"

fun minted_pairs :: "rand \<Rightarrow> nat \<Rightarrow> string list \<Rightarrow> (string \<times> string \<times> string) list" where
  "minted_pairs rnd d [] = []"
| "minted_pairs rnd d (f # fs) =
     (f, nth_uuid rnd d, nth_uuid rnd (Suc d)) # minted_pairs rnd (Suc (Suc d)) fs"

definition record_build :: "(string \<rightharpoonup> string) \<Rightarrow> (string \<times> string \<times> string) list \<Rightarrow> (string \<rightharpoonup> string)" where
  "record_build m ps = foldl (\<lambda>m (f, b, r). m(f \<mapsto> b)) m ps"

definition record_refs :: "(string \<rightharpoonup> string) \<Rightarrow> (string \<times> string \<times> string) list \<Rightarrow> (string \<rightharpoonup> string)" where
  "record_refs m ps = foldl (\<lambda>m (f, b, r). m(f \<mapsto> r)) m ps"

definition pbxproj_text :: "rand \<Rightarrow> string list \<Rightarrow> generator \<Rightarrow> string list" where
  "pbxproj_text rnd fs g =
     (let d = draws g; n = length fs;
          ps = minted_pairs rnd (d + 4) fs;
          U = (\<lambda>k. nth_uuid rnd (d + k));
          V = (\<lambda>k. nth_uuid rnd (d + 2 * n + k))
      in pbx_header @
         map (\<lambda>(f, b, r). build_file_entry b f r) ps @
         pbx_file_reference_open @
         [app_reference_entry (V 4) (project_name g), info_plist_entry (V 5)] @
         map (\<lambda>f. file_reference_entry (the (record_refs (file_refs g) ps f)) f) fs @
         pbx_frameworks_open @
         pbx_objects (project_name g) (V 6) (U 1) (V 7) (V 8) (U 2) (U 3) (V 9) (V 4) (U 0)
           (V 10) (V 11) (V 12) @
         map (\<lambda>f. sources_entry (the (record_build (build_file_refs g) ps f)) f) fs @
         pbx_sources_close @
         pbx_project_configurations (V 13) (V 14) @
         pbx_target_configurations (project_name g) (bundle_id g) (U 0) (U 3) (V 13) (V 14)
           (V 15) (V 16) (V 17))"

definition plain :: "string \<Rightarrow> bool" where
  "plain x = (x = [] \<or> hd x \<noteq> CHR 0x09)"

subsection \<open>Directory trees\<close>




definition rnd0 :: rand where
  "rnd0 k = push_bit 96 (word_of_nat k)"

definition demo_tree :: fs_dir where
  "demo_tree = Dir [''A.swift''] [(''sub'', Dir [''B.swift''] [])]"

section \<open>Project patcher\<close>

text \<open>
  \<^verbatim>\<open>add_autonomous_files.py\<close> reads the project file, edits the text in memory and
  writes it back.  The model takes the text read and returns the text written; the list
  of descriptors, a global of the script, is a parameter, and \<open>files_to_add\<close> is its value
  in the source.  Text is a list of 8-bit characters, read as the code points below 256.
\<close>

record descriptor =
  name :: string
  path :: string

definition files_to_add :: "descriptor list" where
  "files_to_add =
     [\<lparr>name = ''AutonomousSystemManager.swift'',
       path = ''SignalAir/Core/Services/AutonomousSystemManager.swift''\<rparr>,
      \<lparr>name = ''AutomaticSecurityMonitor.swift'',
       path = ''SignalAir/Core/Security/AutomaticSecurityMonitor.swift''\<rparr>,
      \<lparr>name = ''AutomaticBanSystem.swift'',
       path = ''SignalAir/Core/Security/AutomaticBanSystem.swift''\<rparr>,
      \<lparr>name = ''AutomaticSystemMaintenance.swift'',
       path = ''SignalAir/Core/Services/AutomaticSystemMaintenance.swift''\<rparr>,
      \<lparr>name = ''SystemHealthMonitor.swift'',
       path = ''SignalAir/Core/Services/SystemHealthMonitor.swift''\<rparr>]"

subsection \<open>Regular expressions\<close>

text \<open>
  The fragment of Python's \<^verbatim>\<open>re\<close> that the three patterns use: literal text, the
  classes \<^verbatim>\<open>\s\<close>, \<^verbatim>\<open>[^;]\<close> and \<^verbatim>\<open>.\<close> under the greedy \<^verbatim>\<open>*\<close> and
  \<^verbatim>\<open>+\<close> and the lazy \<^verbatim>\<open>*?\<close>, sequence, and the greedy \<^verbatim>\<open>*\<close> of a group.
  Without flags \<^verbatim>\<open>.\<close> matches every character but the line feed, and a negated
  class matches line feeds too.
\<close>

datatype char_class = Whitespace | Not_semicolon | Not_newline

fun in_class :: "char_class \<Rightarrow> char \<Rightarrow> bool" where
  "in_class Whitespace c =
     (c \<in> set [CHR 0x09, CHR 0x0A, CHR 0x0B, CHR 0x0C, CHR 0x0D, CHR 0x1C, CHR 0x1D, CHR 0x1E,
                CHR 0x1F, CHR 0x20, CHR 0x85, CHR 0xA0])"
| "in_class Not_semicolon c = (c \<noteq> CHR '';'')"
| "in_class Not_newline c = (c \<noteq> CHR 0x0A)"

datatype regex =
    Lit string
  | Star char_class
  | Plus char_class
  | Lazy_star char_class
  | Seq regex regex
  | Rep regex

text \<open>
  The backtracking matcher, with the rest of the pattern as a continuation: \<open>rmatch p s k\<close>
  matches \<open>p\<close> at the start of \<open>s\<close> and hands the text behind the match to \<open>k\<close>; where \<open>k\<close>
  fails it tries the next way to match \<open>p\<close>, in the order of the engine: a greedy
  repetition the longest first, a lazy one the shortest first.  An iteration of a
  repeated group has to consume text.
\<close>

function rmatch :: "regex \<Rightarrow> string \<Rightarrow> (string \<Rightarrow> string option) \<Rightarrow> string option" where
  "rmatch (Lit l) s k = (if take (length l) s = l then k (drop (length l) s) else None)"
| "rmatch (Star c) [] k = k []"
| "rmatch (Star c) (x # xs) k =
     (if in_class c x
      then (case rmatch (Star c) xs k of Some r \<Rightarrow> Some r | None \<Rightarrow> k (x # xs))
      else k (x # xs))"
| "rmatch (Plus c) [] k = None"
| "rmatch (Plus c) (x # xs) k = (if in_class c x then rmatch (Star c) xs k else None)"
| "rmatch (Lazy_star c) [] k = k []"
| "rmatch (Lazy_star c) (x # xs) k =
     (case k (x # xs) of
        Some r \<Rightarrow> Some r
      | None \<Rightarrow> if in_class c x then rmatch (Lazy_star c) xs k else None)"
| "rmatch (Seq p q) s k = rmatch p s (\<lambda>s'. rmatch q s' k)"
| "rmatch (Rep p) s k =
     (case rmatch p s (\<lambda>s'. if length s' < length s then rmatch (Rep p) s' k else None) of
        Some r \<Rightarrow> Some r
      | None \<Rightarrow> k s)"
  by pat_completeness auto
termination
  by (relation "inv_image (less_than <*lex*> less_than) (\<lambda>(p, s, k). (size p, length s))") auto

declare rmatch.simps [simp del]

text \<open>
  \<open>match_at p s\<close> is the text behind the first match of \<open>p\<close> at the start of \<open>s\<close>.
  \<open>search\<close> is \<^verbatim>\<open>re.search\<close>: the leftmost position with a match, as the text skipped,
  the match and the text behind it.
\<close>

definition match_at :: "regex \<Rightarrow> string \<Rightarrow> string option" where
  "match_at p s = rmatch p s Some"

fun search :: "regex \<Rightarrow> string \<Rightarrow> string \<Rightarrow> (string \<times> string \<times> string) option" where
  "search p skipped [] =
     (case match_at p [] of Some rest \<Rightarrow> Some (skipped, [], rest) | None \<Rightarrow> None)"
| "search p skipped (c # cs) =
     (case match_at p (c # cs) of
        Some rest \<Rightarrow> Some (skipped, take (length (c # cs) - length rest) (c # cs), rest)
      | None \<Rightarrow> search p (skipped @ [c]) cs)"

text \<open>
  \<^verbatim>\<open>re.sub(pattern, r"\1" + line + "\n", content, count=1)\<close> for a pattern that is one
  group: the first match is kept and \<open>line\<close> and a line feed are put behind it; without a
  match the text is returned as it is.  \<^verbatim>\<open>re.sub\<close> reads a backslash in the
  replacement as an escape, and rejects some; the model does not follow that and stops
  with an error where \<open>line\<close> holds a backslash.
\<close>

definition re_sub_once :: "regex \<Rightarrow> string \<Rightarrow> string \<Rightarrow> py_error + string" where
  "re_sub_once pattern line content =
     (if CHR 0x5C \<in> set line then Inl TemplateEscape
      else case search pattern [] content of
             None \<Rightarrow> Inr content
           | Some (skipped, matched, rest) \<Rightarrow> Inr (skipped @ matched @ line @ [CHR 0x0A] @ rest))"

text \<open>The patterns of lines 73, 81 and 88.\<close>

definition entries_tail :: regex where
  "entries_tail =
     Seq (Star Whitespace) (Rep (Seq (Plus Not_semicolon) (Seq (Lit '';'') (Star Whitespace))))"

definition sources_pattern :: regex where
  "sources_pattern = Seq (Lit ''files = ('') entries_tail"

definition services_group_pattern :: regex where
  "services_group_pattern =
     Seq (Lit ''Core/Services'') (Seq (Lazy_star Not_newline) (Seq (Lit ''children = ('') entries_tail))"

definition security_group_pattern :: regex where
  "security_group_pattern =
     Seq (Lit ''Core/Security'') (Seq (Lazy_star Not_newline) (Seq (Lit ''children = ('') entries_tail))"

subsection \<open>Strings\<close>

text \<open>\<^verbatim>\<open>sub in s\<close> and \<^verbatim>\<open>sep.join(xs)\<close>.\<close>

fun contains :: "string \<Rightarrow> string \<Rightarrow> bool" where
  "contains sub [] = (sub = [])"
| "contains sub (c # cs) = (take (length sub) (c # cs) = sub \<or> contains sub cs)"

fun join :: "string \<Rightarrow> string list \<Rightarrow> string" where
  "join sep [] = []"
| "join sep [x] = x"
| "join sep (x # y # ys) = x @ sep @ join sep (y # ys)"

subsection \<open>The inserted lines\<close>

text \<open>Lines 53, 65, 76 and 84 (the same as 91).\<close>

definition file_ref_line :: "pbx_id \<Rightarrow> string \<Rightarrow> string" where
  \<open>file_ref_line ref nm =
     replicate 2 (CHR 0x09) @ ref @ '' /* '' @ nm @ '' */ = {isa = PBXFileReference; lastKnownFileType = sourcecode.swift; path = '' @ nm @ ''; sourceTree = "<group>"; };''\<close>

definition build_file_line :: "pbx_id \<Rightarrow> string \<Rightarrow> pbx_id \<Rightarrow> string" where
  \<open>build_file_line build nm ref =
     replicate 2 (CHR 0x09) @ build @ '' /* '' @ nm @ '' in Sources */ = {isa = PBXBuildFile; fileRef = '' @ ref @ '' /* '' @ nm @ '' */; };''\<close>

definition sources_line :: "pbx_id \<Rightarrow> string \<Rightarrow> string" where
  \<open>sources_line build nm = replicate 4 (CHR 0x09) @ build @ '' /* '' @ nm @ '' in Sources */,''\<close>

definition group_line :: "pbx_id \<Rightarrow> string \<Rightarrow> string" where
  \<open>group_line ref nm = replicate 4 (CHR 0x09) @ ref @ '' /* '' @ nm @ '' */,''\<close>

definition file_ref_section :: string where
  "file_ref_section = ''/* End PBXFileReference section */''"

definition build_file_section :: string where
  "build_file_section = ''/* End PBXBuildFile section */''"

subsection \<open>The steps of \<^verbatim>\<open>add_files_to_xcode_project\<close>\<close>

text \<open>
  Lines 41 to 46: two identifiers per descriptor, stored under its name; \<open>k\<close> counts the
  draws from the random source.
\<close>

fun assign_uuids ::
  "rand \<Rightarrow> descriptor list \<Rightarrow> nat \<Rightarrow> (string \<rightharpoonup> pbx_id) \<times> (string \<rightharpoonup> pbx_id) \<Rightarrow>
   (string \<rightharpoonup> pbx_id) \<times> (string \<rightharpoonup> pbx_id)" where
  "assign_uuids rnd [] k (refs, builds) = (refs, builds)"
| "assign_uuids rnd (file_info # rest) k (refs, builds) =
     assign_uuids rnd rest (k + 2)
       (refs(name file_info \<mapsto> generate_uuid (rnd k)),
        builds(name file_info \<mapsto> generate_uuid (rnd (Suc k))))"

text \<open>Lines 52 to 54 and 64 to 66: the lines to insert, in the order of the list.\<close>

fun file_ref_insertions :: "(string \<rightharpoonup> pbx_id) \<Rightarrow> descriptor list \<Rightarrow> py_error + string list" where
  "file_ref_insertions refs [] = Inr []"
| "file_ref_insertions refs (file_info # rest) =
     (case lookup refs (name file_info) of
        Inl e \<Rightarrow> Inl e
      | Inr ref \<Rightarrow>
          (case file_ref_insertions refs rest of
             Inl e \<Rightarrow> Inl e
           | Inr ls \<Rightarrow> Inr (file_ref_line ref (name file_info) # ls)))"

fun build_file_insertions ::
  "(string \<rightharpoonup> pbx_id) \<Rightarrow> (string \<rightharpoonup> pbx_id) \<Rightarrow> descriptor list \<Rightarrow> py_error + string list" where
  "build_file_insertions refs builds [] = Inr []"
| "build_file_insertions refs builds (file_info # rest) =
     (case lookup builds (name file_info) of
        Inl e \<Rightarrow> Inl e
      | Inr build \<Rightarrow>
          (case lookup refs (name file_info) of
             Inl e \<Rightarrow> Inl e
           | Inr ref \<Rightarrow>
               (case build_file_insertions refs builds rest of
                  Inl e \<Rightarrow> Inl e
                | Inr ls \<Rightarrow> Inr (build_file_line build (name file_info) ref # ls))))"

text \<open>Lines 57 and 58, and 69 and 70: the lines go in front of every occurrence of the marker.\<close>

definition insert_before :: "string \<Rightarrow> string list \<Rightarrow> string \<Rightarrow> string" where
  "insert_before marker insertions content =
     (let insert_text = join [CHR 0x0A] insertions @ [CHR 0x0A]
      in replace marker (insert_text @ marker) content)"

text \<open>Lines 75 to 77: one substitution per descriptor, each on the text the one before left.\<close>

fun insert_sources :: "(string \<rightharpoonup> pbx_id) \<Rightarrow> descriptor list \<Rightarrow> string \<Rightarrow> py_error + string" where
  "insert_sources builds [] content = Inr content"
| "insert_sources builds (file_info # rest) content =
     (case lookup builds (name file_info) of
        Inl e \<Rightarrow> Inl e
      | Inr build \<Rightarrow>
          (case re_sub_once sources_pattern (sources_line build (name file_info)) content of
             Inl e \<Rightarrow> Inl e
           | Inr content \<Rightarrow> insert_sources builds rest content))"

text \<open>
  Lines 82 to 85 and 89 to 92: the same for the descriptors whose path contains the
  keyword, with the pattern of the group.
\<close>

fun insert_group ::
  "string \<Rightarrow> regex \<Rightarrow> (string \<rightharpoonup> pbx_id) \<Rightarrow> descriptor list \<Rightarrow> string \<Rightarrow> py_error + string" where
  "insert_group keyword pattern refs [] content = Inr content"
| "insert_group keyword pattern refs (file_info # rest) content =
     (if contains keyword (path file_info)
      then (case lookup refs (name file_info) of
              Inl e \<Rightarrow> Inl e
            | Inr ref \<Rightarrow>
                (case re_sub_once pattern (group_line ref (name file_info)) content of
                   Inl e \<Rightarrow> Inl e
                 | Inr content \<Rightarrow> insert_group keyword pattern refs rest content))
      else insert_group keyword pattern refs rest content)"

text \<open>The function, lines 33 to 96, from the text read to the text written.\<close>

definition add_files_to_xcode_project :: "rand \<Rightarrow> descriptor list \<Rightarrow> string \<Rightarrow> py_error + string" where
  "add_files_to_xcode_project rnd files content =
     (let (refs, builds) = assign_uuids rnd files 0 (Map.empty, Map.empty)
      in case file_ref_insertions refs files of
           Inl e \<Rightarrow> Inl e
         | Inr file_ref_lines \<Rightarrow>
     (let content = insert_before file_ref_section file_ref_lines content
      in case build_file_insertions refs builds files of
           Inl e \<Rightarrow> Inl e
         | Inr build_file_lines \<Rightarrow>
     (let content = insert_before build_file_section build_file_lines content
      in case insert_sources builds files content of
           Inl e \<Rightarrow> Inl e
         | Inr content \<Rightarrow>
     (case insert_group ''Services'' services_group_pattern refs files content of
           Inl e \<Rightarrow> Inl e
         | Inr content \<Rightarrow>
             insert_group ''Security'' security_group_pattern refs files content))))"

subsection \<open>Notions for the proofs about the patcher\<close>

text \<open>
  \<open>matches p m\<close>: the text \<open>m\<close> belongs to the language of the pattern \<open>p\<close>.
  \<open>names_ok\<close>: no name of a descriptor holds a backslash.  \<open>minted m files\<close>: the
  dictionary \<open>m\<close> has, for every descriptor, an identifier without a backslash.
  \<open>x_swift\<close> is the descriptor of the scenarios of section 8 of the specification;
  \<open>build_phase_text\<close>, \<open>group_text\<close> and \<open>plain_text\<close> are sample project texts: a sources build
  phase and a group laid out as the project synthesizer lays out its objects, and a text
  without any anchor.
\<close>

inductive matches :: "regex \<Rightarrow> string \<Rightarrow> bool" where
  m_Lit: "matches (Lit l) l"
| m_Star: "list_all (in_class c) w \<Longrightarrow> matches (Star c) w"
| m_Plus: "w \<noteq> [] \<Longrightarrow> list_all (in_class c) w \<Longrightarrow> matches (Plus c) w"
| m_Lazy: "list_all (in_class c) w \<Longrightarrow> matches (Lazy_star c) w"
| m_Seq: "matches p a \<Longrightarrow> matches q b \<Longrightarrow> matches (Seq p q) (a @ b)"
| m_Rep0: "matches (Rep p) []"
| m_RepS: "matches p a \<Longrightarrow> matches (Rep p) b \<Longrightarrow> matches (Rep p) (a @ b)"

definition names_ok :: "descriptor list \<Rightarrow> bool" where
  "names_ok files = list_all (\<lambda>f. CHR 0x5C \<notin> set (name f)) files"

definition minted :: "(string \<rightharpoonup> pbx_id) \<Rightarrow> descriptor list \<Rightarrow> bool" where
  "minted m files = list_all (\<lambda>f. case m (name f) of None \<Rightarrow> False | Some u \<Rightarrow> CHR 0x5C \<notin> set u) files"

definition x_swift :: descriptor where
  "x_swift = \<lparr>name = ''X.swift'', path = ''Core/Services/X.swift''\<rparr>"

definition build_phase_text :: string where
  "build_phase_text = concat
     [ln 0 ''/* Begin PBXSourcesBuildPhase section */'',
      ln 2 ''5C0000000000000000000001 /* Sources */ = {'',
      ln 3 ''isa = PBXSourcesBuildPhase;'',
      ln 3 ''buildActionMask = 2147483647;'',
      ln 3 ''files = ('',
      ln 4 ''5C0000000000000000000002 /* Old.swift in Sources */,'',
      ln 3 '');'',
      ln 3 ''runOnlyForDeploymentPostprocessing = 0;'',
      ln 2 ''};'',
      ln 0 ''/* End PBXSourcesBuildPhase section */'']"

definition group_text :: string where
  \<open>group_text = concat
     [ln 0 ''/* Begin PBXGroup section */'',
      ln 2 ''5C0000000000000000000003 /* Core/Services */ = {isa = PBXGroup; children = ('',
      ln 4 ''5C0000000000000000000004 /* Old.swift */,'',
      ln 3 '');'',
      ln 3 ''path = Core/Services;'',
      ln 3 ''sourceTree = "<group>";'',
      ln 2 ''};'',
      ln 0 ''/* End PBXGroup section */'']\<close>

definition plain_text :: string where
  "plain_text = ''// !$*UTF8*$!''"
section \<open>Properties of the identifier generator\<close>

lemma length_hex32: "length (hex32 w) = 32"
  by (simp add: hex32_def)

lemma nibble_less: "unat ((x :: 128 word) AND 15) < 16"
proof -
  have "x AND 15 \<le> 15" by (rule word_and_le1)
  then have "unat (x AND 15) \<le> unat (15 :: 128 word)" by (simp add: word_le_nat_alt)
  then show ?thesis by simp
qed

lemma hexdigit_in: "n < 16 \<Longrightarrow> hexdigit n \<in> set ''0123456789abcdef''"
  unfolding hexdigit_def by (rule nth_mem) simp

lemma set_hex32: "set (hex32 w) \<subseteq> set ''0123456789abcdef''"
  unfolding hex32_def set_map by (rule image_subsetI) (rule hexdigit_in [OF nibble_less])

lemma replace_dash: "replace ''-'' [] s = filter (\<lambda>c. c \<noteq> CHR ''-'') s"
proof (induction s)
  case Nil
  show ?case by (subst replace.simps) simp
next
  case (Cons c s)
  show ?case by (subst replace.simps) (simp add: Cons.IH)
qed

lemma filter_hex:
  assumes "set h \<subseteq> set ''0123456789abcdef''"
  shows "filter (\<lambda>c. c \<noteq> CHR ''-'') h = h"
proof (rule filter_True)
  have n: "CHR ''-'' \<notin> set ''0123456789abcdef''" by simp
  show "\<forall>c\<in>set h. c \<noteq> CHR ''-''" using assms n by blast
qed

lemma slices_hex: "length h = 32 \<Longrightarrow>
  slice 0 8 h @ slice 8 12 h @ slice 12 16 h @ slice 16 20 h @ drop 20 h = h"
proof -
  assume "length h = 32"
  have a: "\<And>i n. take n (drop i h) @ drop (i + n) h = drop i h"
    by (metis append_take_drop_id drop_drop add.commute)
  have "take 4 (drop 16 h) @ drop 20 h = drop 16 h" using a [of 4 16] by simp
  moreover have "take 4 (drop 12 h) @ drop 16 h = drop 12 h" using a [of 4 12] by simp
  moreover have "take 4 (drop 8 h) @ drop 12 h = drop 8 h" using a [of 4 8] by simp
  moreover have "take 8 h @ drop 8 h = h" by simp
  ultimately show ?thesis by (simp add: slice_def)
qed

lemma undashed: "replace ''-'' [] (str_uuid u) = hex32 u"
proof -
  have s: "\<And>i j. set (slice i j (hex32 u)) \<subseteq> set ''0123456789abcdef''"
    unfolding slice_def using set_hex32 [of u] set_take_subset set_drop_subset by fast
  have d: "set (drop 20 (hex32 u)) \<subseteq> set ''0123456789abcdef''"
    using set_hex32 [of u] set_drop_subset by fast
  show ?thesis
    unfolding replace_dash str_uuid_def Let_def
    by (simp add: filter_hex [OF s] filter_hex [OF d] slices_hex [OF length_hex32])
qed

lemma upper_hex: "c \<in> set ''0123456789abcdef'' \<Longrightarrow> upper_char c \<in> set ''0123456789ABCDEF''"
proof -
  have "list_all (\<lambda>c. upper_char c \<in> set ''0123456789ABCDEF'') ''0123456789abcdef''"
    by (simp add: upper_char_def)
  then show "c \<in> set ''0123456789abcdef'' \<Longrightarrow> upper_char c \<in> set ''0123456789ABCDEF''"
    unfolding list_all_iff by blast
qed

lemma generate_uuid_hex32: "generate_uuid r = take 24 (map upper_char (hex32 (uuid4 r)))"
  by (simp add: generate_uuid_def undashed upper_def)

lemma length_generate_uuid: "length (generate_uuid r) = 24"
  by (simp add: generate_uuid_hex32 length_hex32)

lemma set_generate_uuid: "set (generate_uuid r) \<subseteq> set ''0123456789ABCDEF''"
proof
  fix c assume "c \<in> set (generate_uuid r)"
  then have "c \<in> set (map upper_char (hex32 (uuid4 r)))"
    unfolding generate_uuid_hex32 by (rule in_set_takeD)
  then have "c \<in> upper_char ` set (hex32 (uuid4 r))" by (simp only: set_map)
  then obtain d where d: "d \<in> set (hex32 (uuid4 r))" and c: "c = upper_char d" by (rule imageE)
  from d have "d \<in> set ''0123456789abcdef''" by (rule subsetD [OF set_hex32])
  then show "c \<in> set ''0123456789ABCDEF''" unfolding c by (rule upper_hex)
qed

text \<open>
  Claim C4.  For every value of the random source, \<open>generate_uuid\<close> returns exactly 24
  characters, each an upper-case letter or a digit, and the result is the first 24
  characters of the random version-4 UUID's text with the \<open>-\<close> separators removed and the
  letters upper-cased.
\<close>

theorem generate_uuid_token:
  "length (generate_uuid r) = 24 \<and> list_all is_upper_alnum (generate_uuid r) \<and>
   generate_uuid r = take 24 (upper (filter (\<lambda>c. c \<noteq> CHR ''-'') (str_uuid (uuid4 r))))"
proof (intro conjI)
  show "length (generate_uuid r) = 24" by (rule length_generate_uuid)
  have a: "set ''0123456789ABCDEF'' \<subseteq> set ''0123456789ABCDEFGHIJKLMNOPQRSTUVWXYZ''" by simp
  show "list_all is_upper_alnum (generate_uuid r)"
    unfolding list_all_iff is_upper_alnum_def using set_generate_uuid [of r] a by blast
  show "generate_uuid r = take 24 (upper (filter (\<lambda>c. c \<noteq> CHR ''-'') (str_uuid (uuid4 r))))"
    by (simp only: generate_uuid_def replace_dash)
qed

section \<open>Properties of the project synthesizer\<close>

lemma add_build_files_closed:
  "add_build_files rnd fs (g, c) =
     (g\<lparr>draws := draws g + 2 * length fs,
        build_file_refs := record_build (build_file_refs g) (minted_pairs rnd (draws g) fs),
        file_refs := record_refs (file_refs g) (minted_pairs rnd (draws g) fs)\<rparr>,
      c @ map (\<lambda>(f, b, r). build_file_entry b f r) (minted_pairs rnd (draws g) fs))"
proof (induction fs arbitrary: g c)
  case Nil
  show ?case by (simp add: record_build_def record_refs_def)
next
  case (Cons f fs)
  show ?case
    by (simp add: Cons.IH self_generate_uuid_def record_build_def record_refs_def nth_uuid_def)
qed

lemma dom_record_build: "dom (record_build m (minted_pairs rnd d fs)) = dom m \<union> set fs"
  unfolding record_build_def by (induction fs arbitrary: m d) auto

lemma dom_record_refs: "dom (record_refs m (minted_pairs rnd d fs)) = dom m \<union> set fs"
  unfolding record_refs_def by (induction fs arbitrary: m d) auto

lemma add_file_references_closed:
  "set fs \<subseteq> dom (file_refs g) \<Longrightarrow>
   add_file_references g fs c =
     Inr (c @ map (\<lambda>f. file_reference_entry (the (file_refs g f)) f) fs)"
  by (induction fs arbitrary: c) (auto simp: lookup_def)

lemma add_sources_closed:
  "set fs \<subseteq> dom (build_file_refs g) \<Longrightarrow>
   add_sources g fs c =
     Inr (c @ map (\<lambda>f. sources_entry (the (build_file_refs g f)) f) fs)"
  by (induction fs arbitrary: c) (auto simp: lookup_def)

lemma pbxproj_lines_closed: "pbxproj_lines rnd fs g = Inr (pbxproj_text rnd fs g)"
proof -
  have a: "set fs \<subseteq> dom (record_refs (file_refs g) (minted_pairs rnd (draws g + 4) fs))"
    unfolding dom_record_refs by simp
  have b: "set fs \<subseteq> dom (record_build (build_file_refs g) (minted_pairs rnd (draws g + 4) fs))"
    unfolding dom_record_build by simp
  show ?thesis
    unfolding pbxproj_lines_def pbxproj_text_def
    using a b
    by (simp add: self_generate_uuid_def add_build_files_closed add_file_references_closed
        add_sources_closed Let_def nth_uuid_def add.commute add.left_commute eval_nat_numeral)
qed

subsection \<open>Lines\<close>

lemma ln_0: "ln 0 x = x @ [CHR 0x0A]"
  by (simp add: ln_def)

lemma ln_Suc: "ln (Suc n) x = CHR 0x09 # ln n x"
  by (simp add: ln_def)

lemma ln_inject [simp]: "ln n x = ln n y \<longleftrightarrow> x = y"
  by (simp add: ln_def)

lemma ln_less_neq:
  assumes "n < m" and "y = [] \<or> hd y \<noteq> CHR 0x09"
  shows "ln m x \<noteq> ln n y"
  using assms(1)
proof (induction n arbitrary: m)
  case 0
  then obtain k where m: "m = Suc k" by (cases m) auto
  show ?case
  proof (cases y)
    case Nil
    then show ?thesis unfolding m ln_Suc ln_0 by simp
  next
    case (Cons c ys)
    then have "c \<noteq> CHR 0x09" using assms(2) by simp
    then show ?thesis unfolding m ln_Suc ln_0 Cons by simp
  qed
next
  case (Suc n)
  then obtain k where m: "m = Suc k" and k: "n < k" by (cases m) auto
  show ?case unfolding m ln_Suc using Suc.IH [OF k] by simp
qed

lemma ln_neq_iff:
  assumes "x = [] \<or> hd x \<noteq> CHR 0x09" and "y = [] \<or> hd y \<noteq> CHR 0x09"
  shows "ln m x = ln n y \<longleftrightarrow> m = n \<and> x = y"
proof (cases m n rule: linorder_cases)
  case less
  then show ?thesis using ln_less_neq [OF less assms(1), of y] by auto
next
  case equal
  then show ?thesis by simp
next
  case greater
  then show ?thesis using ln_less_neq [OF greater assms(2), of x] by auto
qed

lemma plain_Nil [simp]: "plain []"
  by (simp add: plain_def)

lemma plain_Cons [simp]: "plain (c # x) \<longleftrightarrow> c \<noteq> CHR 0x09"
  by (simp add: plain_def)

lemma plain_append: "x \<noteq> [] \<Longrightarrow> plain x \<Longrightarrow> plain (x @ y)"
  by (cases x) (auto simp: plain_def)

lemma ln_eq_plain: "plain x \<Longrightarrow> plain y \<Longrightarrow> ln m x = ln n y \<longleftrightarrow> m = n \<and> x = y"
  unfolding plain_def by (rule ln_neq_iff)

subsection \<open>Identifiers\<close>

lemma length_nth_uuid [simp]: "length (nth_uuid rnd k) = 24"
  by (simp add: nth_uuid_def length_generate_uuid)

lemma nth_uuid_no_tab: "CHR 0x09 \<notin> set (nth_uuid rnd k)"
proof -
  have "CHR 0x09 \<notin> set ''0123456789ABCDEF''" by simp
  then show ?thesis unfolding nth_uuid_def using set_generate_uuid [of "rnd k"] by blast
qed

lemma nth_uuid_not_Nil [simp]: "nth_uuid rnd k \<noteq> []"
proof
  assume "nth_uuid rnd k = []"
  then have "length (nth_uuid rnd k) = 0" by simp
  then show False by simp
qed

lemma plain_nth_uuid [simp]: "plain (nth_uuid rnd k)"
  using nth_uuid_no_tab [of rnd k] by (cases "nth_uuid rnd k") (auto simp: plain_def)

lemma plain_nth_uuid_append [simp]: "plain (nth_uuid rnd k @ y)"
  by (rule plain_append) simp_all

lemma entry_id_ln:
  assumes "length u = 24" and "CHR 0x09 \<notin> set u"
  shows "entry_id (ln n (u @ rest)) = u"
proof -
  have u: "u \<noteq> []" using assms(1) by auto
  then have h: "hd u \<noteq> CHR 0x09" using assms(2) by (cases u) auto
  have "dropWhile (\<lambda>c. c = CHR 0x09) (replicate n (CHR 0x09) @ u @ rest @ [CHR 0x0A])
        = dropWhile (\<lambda>c. c = CHR 0x09) (u @ rest @ [CHR 0x0A])"
    by (rule dropWhile_append2) simp
  also have "\<dots> = u @ rest @ [CHR 0x0A]" using u h by (cases u) auto
  finally show ?thesis unfolding entry_id_def ln_def using assms(1) by simp
qed

lemma entry_id_nth_uuid [simp]: "entry_id (ln n (nth_uuid rnd k @ rest)) = nth_uuid rnd k"
  by (rule entry_id_ln) (simp_all add: nth_uuid_no_tab)

subsection \<open>Sections\<close>

lemma between_eq:
  assumes "opening \<notin> set pre" and "closing \<notin> set body"
  shows "between opening closing (pre @ opening # body @ closing # post) = body"
proof -
  have "dropWhile (\<lambda>l. l \<noteq> opening) (pre @ opening # body @ closing # post)
        = dropWhile (\<lambda>l. l \<noteq> opening) (opening # body @ closing # post)"
    using assms(1) by (intro dropWhile_append2) auto
  then have "tl (dropWhile (\<lambda>l. l \<noteq> opening) (pre @ opening # body @ closing # post))
        = body @ closing # post" by simp
  moreover have "takeWhile (\<lambda>l. l \<noteq> closing) (body @ closing # post) = body"
    using assms(2) by (induction body) auto
  ultimately show ?thesis unfolding between_def by simp
qed

lemma ln_gt_neq [simp]: "n < m \<Longrightarrow> plain y \<Longrightarrow> (ln m x = ln n y) = False"
  using ln_less_neq [of n m y x] by (metis plain_def)

lemma ln_lt_neq [simp]: "n < m \<Longrightarrow> plain y \<Longrightarrow> (ln n y = ln m x) = False"
  using ln_less_neq [of n m y x] by (metis plain_def)

lemma dropWhile_map_skip: "(\<And>x. P (f x)) \<Longrightarrow> dropWhile P (map f xs @ ys) = dropWhile P ys"
  by (rule dropWhile_append2) auto

lemma takeWhile_map_keep: "(\<And>x. P (f x)) \<Longrightarrow> takeWhile P (map f xs @ ys) = map f xs @ takeWhile P ys"
  by (rule takeWhile_append2) auto

lemmas template_defs =
  pbx_header_def pbx_file_reference_open_def pbx_frameworks_open_def pbx_objects_def
  pbx_sources_close_def pbx_project_configurations_def pbx_target_configurations_def
  build_file_entry_def app_reference_entry_def info_plist_entry_def file_reference_entry_def
  sources_entry_def

lemmas section_simps =
  section_lines_def between_def pbxproj_text_def Let_def begin_marker_def end_marker_def
  dropWhile_map_skip takeWhile_map_keep case_prod_beta

lemma section_build_file:
  "section_lines ''PBXBuildFile'' (pbxproj_text rnd fs g) =
     map (\<lambda>(f, b, r). build_file_entry b f r) (minted_pairs rnd (draws g + 4) fs)"
  by (simp add: section_simps template_defs)

lemma section_file_reference:
  "section_lines ''PBXFileReference'' (pbxproj_text rnd fs g) =
     [app_reference_entry (nth_uuid rnd (draws g + 2 * length fs + 4)) (project_name g),
      info_plist_entry (nth_uuid rnd (draws g + 2 * length fs + 5))] @
     map (\<lambda>f. file_reference_entry
                 (the (record_refs (file_refs g) (minted_pairs rnd (draws g + 4) fs) f)) f) fs"
  by (simp add: section_simps template_defs)

lemma section_sources:
  \<open>section_lines ''PBXSourcesBuildPhase'' (pbxproj_text rnd fs g) =
     [ln 2 (nth_uuid rnd (draws g + 2 * length fs + 12) @ '' /* Sources */ = {''),
      ln 3 ''isa = PBXSourcesBuildPhase;'',
      ln 3 ''buildActionMask = 2147483647;'',
      ln 3 ''files = (''] @
     map (\<lambda>f. sources_entry
                 (the (record_build (build_file_refs g) (minted_pairs rnd (draws g + 4) fs) f)) f) fs @
     [ln 3 '');'',
      ln 3 ''runOnlyForDeploymentPostprocessing = 0;'',
      ln 2 ''};'']\<close>
  by (simp add: section_simps template_defs)

lemma files_list_sources:
  "files_list (section_lines ''PBXSourcesBuildPhase'' (pbxproj_text rnd fs g)) =
     map (\<lambda>f. sources_entry
                 (the (record_build (build_file_refs g) (minted_pairs rnd (draws g + 4) fs) f)) f) fs"
  unfolding section_sources
  by (simp add: files_list_def between_def sources_entry_def dropWhile_map_skip takeWhile_map_keep)

subsection \<open>The dictionaries after the first loop\<close>

lemma record_build_Cons:
  "record_build m ((f, b, r) # ps) = record_build (m(f \<mapsto> b)) ps"
  by (simp add: record_build_def)

lemma record_build_Nil [simp]: "record_build m [] = m"
  by (simp add: record_build_def)

lemma record_build_notin:
  "x \<notin> set fs \<Longrightarrow> record_build m (minted_pairs rnd d fs) x = m x"
  by (induction fs arbitrary: m d) (auto simp: record_build_Cons)

lemma record_build_in:
  "x \<in> set fs \<Longrightarrow>
   \<exists>b r. record_build m (minted_pairs rnd d fs) x = Some b \<and> (x, b, r) \<in> set (minted_pairs rnd d fs)"
proof (induction fs arbitrary: m d)
  case Nil
  then show ?case by simp
next
  case (Cons f fs)
  show ?case
  proof (cases "x \<in> set fs")
    case True
    obtain b r where
      a: "record_build (m(f \<mapsto> nth_uuid rnd d)) (minted_pairs rnd (Suc (Suc d)) fs) x = Some b"
      and b: "(x, b, r) \<in> set (minted_pairs rnd (Suc (Suc d)) fs)"
      using Cons.IH [OF True] by blast
    show ?thesis
      by (rule exI [of _ b], rule exI [of _ r]) (simp add: record_build_Cons a b)
  next
    case False
    then have "x = f" using Cons.prems by simp
    then show ?thesis using False
      by (intro exI [of _ "nth_uuid rnd d"] exI [of _ "nth_uuid rnd (Suc d)"])
        (simp add: record_build_Cons record_build_notin)
  qed
qed


lemma minted_pairs_files [simp]: "map fst (minted_pairs rnd d fs) = fs"
  by (induction fs arbitrary: d) auto

lemma length_minted_pairs [simp]: "length (minted_pairs rnd d fs) = length fs"
  by (induction fs arbitrary: d) auto

lemma minted_pairs_uuid:
  "(f, b, r) \<in> set (minted_pairs rnd d fs) \<Longrightarrow> \<exists>k k'. b = nth_uuid rnd k \<and> r = nth_uuid rnd k'"
  by (induction fs arbitrary: d) auto


lemma build_entry_ids:
  "map entry_id (map (\<lambda>(f, b, r). build_file_entry b f r) (minted_pairs rnd d fs)) =
   map (\<lambda>(f, b, r). b) (minted_pairs rnd d fs)"
proof -
  have "entry_id (build_file_entry b f r) = b" if "(f, b, r) \<in> set (minted_pairs rnd d fs)" for f b r
    using minted_pairs_uuid [OF that] by (auto simp: build_file_entry_def)
  then show ?thesis by auto
qed




subsection \<open>Discovery and the sources build phase\<close>






lemma slash_path: "CHR ''/'' \<in> set (d @ ''/'' @ p)"
  by simp








lemma generate_project_pbxproj_closed:
  "generate_project_pbxproj rnd tree g = Inr (concat (pbxproj_text rnd (collect_swift_files tree) g))"
  by (simp add: generate_project_pbxproj_def pbxproj_lines_closed)




lemma collect_demo_tree: "collect_swift_files demo_tree = [''A.swift'', ''sub/B.swift'']"
  by (simp add: collect_swift_files_def demo_tree_def endswith_def rel_join_def)

text \<open>
  Claim C9.  For the project \<open>Demo\<close> and the tree with the files \<open>A.swift\<close> and
  \<open>sub/B.swift\<close>, whatever the bundle identifier and the random source: the build-file
  section has exactly two entries, for \<open>A.swift\<close> and for \<open>sub/B.swift\<close>; the two file
  references carry the relative path as their path value; and the files list of the
  sources build phase holds exactly the two build-file identifiers.
\<close>

theorem demo_scenario:
  \<open>\<exists>out. generate_project_pbxproj rnd demo_tree (XcodeprojGenerator ''Demo'' bid) = Inr (concat out) \<and>
     pbxproj_lines rnd (collect_swift_files demo_tree) (XcodeprojGenerator ''Demo'' bid) = Inr out \<and>
     collect_swift_files demo_tree = [''A.swift'', ''sub/B.swift''] \<and>
     section_lines ''PBXBuildFile'' out =
       [build_file_entry (generate_uuid (rnd 4)) ''A.swift'' (generate_uuid (rnd 5)),
        build_file_entry (generate_uuid (rnd 6)) ''sub/B.swift'' (generate_uuid (rnd 7))] \<and>
     section_lines ''PBXFileReference'' out =
       [app_reference_entry (generate_uuid (rnd 8)) ''Demo'',
        info_plist_entry (generate_uuid (rnd 9)),
        ln 2 (generate_uuid (rnd 5) @ '' /* A.swift */ = {isa = PBXFileReference; lastKnownFileType = sourcecode.swift; path = "A.swift"; sourceTree = "<group>"; };''),
        ln 2 (generate_uuid (rnd 7) @ '' /* sub/B.swift */ = {isa = PBXFileReference; lastKnownFileType = sourcecode.swift; path = "sub/B.swift"; sourceTree = "<group>"; };'')] \<and>
     files_list (section_lines ''PBXSourcesBuildPhase'' out) =
       [ln 4 (generate_uuid (rnd 4) @ '' /* A.swift in Sources */,''),
        ln 4 (generate_uuid (rnd 6) @ '' /* sub/B.swift in Sources */,'')] \<and>
     map entry_id (files_list (section_lines ''PBXSourcesBuildPhase'' out)) =
       [generate_uuid (rnd 4), generate_uuid (rnd 6)] \<and>
     map entry_id (section_lines ''PBXBuildFile'' out) = [generate_uuid (rnd 4), generate_uuid (rnd 6)]\<close>
proof -
  let ?g = "XcodeprojGenerator ''Demo'' bid"
  let ?out = "pbxproj_text rnd [''A.swift'', ''sub/B.swift''] ?g"
  have g: "draws ?g = 0" "project_name ?g = ''Demo''" "file_refs ?g = Map.empty"
    "build_file_refs ?g = Map.empty"
    by (simp_all add: XcodeprojGenerator_def)
  have b: "section_lines ''PBXBuildFile'' ?out =
       [build_file_entry (generate_uuid (rnd 4)) ''A.swift'' (generate_uuid (rnd 5)),
        build_file_entry (generate_uuid (rnd 6)) ''sub/B.swift'' (generate_uuid (rnd 7))]"
    unfolding section_build_file g by (simp add: nth_uuid_def eval_nat_numeral)
  have r: \<open>section_lines ''PBXFileReference'' ?out =
       [app_reference_entry (generate_uuid (rnd 8)) ''Demo'',
        info_plist_entry (generate_uuid (rnd 9)),
        ln 2 (generate_uuid (rnd 5) @ '' /* A.swift */ = {isa = PBXFileReference; lastKnownFileType = sourcecode.swift; path = "A.swift"; sourceTree = "<group>"; };''),
        ln 2 (generate_uuid (rnd 7) @ '' /* sub/B.swift */ = {isa = PBXFileReference; lastKnownFileType = sourcecode.swift; path = "sub/B.swift"; sourceTree = "<group>"; };'')]\<close>
    unfolding section_file_reference g
    by (simp add: nth_uuid_def eval_nat_numeral record_refs_def file_reference_entry_def)
  have s: "files_list (section_lines ''PBXSourcesBuildPhase'' ?out) =
       [ln 4 (generate_uuid (rnd 4) @ '' /* A.swift in Sources */,''),
        ln 4 (generate_uuid (rnd 6) @ '' /* sub/B.swift in Sources */,'')]"
    unfolding files_list_sources g
    by (simp add: nth_uuid_def eval_nat_numeral record_build_def sources_entry_def)
  have i: "map entry_id (files_list (section_lines ''PBXSourcesBuildPhase'' ?out)) =
       [generate_uuid (rnd 4), generate_uuid (rnd 6)]"
    unfolding s using entry_id_nth_uuid [of 4 rnd] by (simp add: nth_uuid_def)
  have j: "map entry_id (section_lines ''PBXBuildFile'' ?out) = [generate_uuid (rnd 4), generate_uuid (rnd 6)]"
    unfolding section_build_file build_entry_ids g by (simp add: nth_uuid_def eval_nat_numeral)
  show ?thesis
    unfolding collect_demo_tree generate_project_pbxproj_closed pbxproj_lines_closed
    using b r s i j by (intro exI [of _ ?out]) simp
qed

subsection \<open>Identifiers defined and identifiers referred to\<close>

lemma indent_ln: "plain x \<Longrightarrow> indent (ln n x) = n"
proof -
  assume "plain x"
  then have "takeWhile (\<lambda>c. c = CHR 0x09) (x @ [CHR 0x0A]) = []"
    by (cases x) (auto simp: plain_def)
  moreover have "takeWhile (\<lambda>c. c = CHR 0x09) (replicate n (CHR 0x09) @ x @ [CHR 0x0A])
      = replicate n (CHR 0x09) @ takeWhile (\<lambda>c. c = CHR 0x09) (x @ [CHR 0x0A])"
    by (rule takeWhile_append2) simp
  ultimately show ?thesis unfolding indent_def ln_def by simp
qed

lemma is_object_line_ln:
  "plain x \<Longrightarrow> is_object_line (ln n x) \<longleftrightarrow> n = 2 \<and> x \<noteq> ''};''"
  by (auto simp: is_object_line_def indent_ln)

lemmas objects_defs =
  pbx_header_def pbx_file_reference_open_def pbx_frameworks_open_def pbx_objects_def
  build_file_entry_def app_reference_entry_def info_plist_entry_def file_reference_entry_def

lemma section_native_target:
  \<open>section_lines ''PBXNativeTarget'' (pbxproj_text rnd fs g) =
     [ln 2 (nth_uuid rnd (draws g + 2) @ '' /* '' @ project_name g @ '' */ = {''),
      ln 3 ''isa = PBXNativeTarget;'',
      ln 3 (''buildConfigurationList = '' @ nth_uuid rnd (draws g + 3) @ '' /* Build configuration list for PBXNativeTarget "'' @ project_name g @ ''" */;''),
      ln 3 ''buildPhases = ('',
      ln 4 (nth_uuid rnd (draws g + 2 * length fs + 9) @ '' /* Sources */,''),
      ln 4 (nth_uuid rnd (draws g + 2 * length fs + 6) @ '' /* Frameworks */,''),
      ln 3 '');'',
      ln 3 ''buildRules = ('',
      ln 3 '');'',
      ln 3 ''dependencies = ('',
      ln 3 '');'',
      ln 3 (''name = '' @ project_name g @ '';''),
      ln 3 (''productName = '' @ project_name g @ '';''),
      ln 3 (''productReference = '' @ nth_uuid rnd (draws g + 2 * length fs + 4) @ '' /* '' @ project_name g @ ''.app */;''),
      ln 3 ''productType = "com.apple.product-type.application";'',
      ln 2 ''};'']\<close>
  by (simp add: section_simps objects_defs)

lemma section_frameworks:
  \<open>section_lines ''PBXFrameworksBuildPhase'' (pbxproj_text rnd fs g) =
     [ln 2 (nth_uuid rnd (draws g + 2 * length fs + 6) @ '' /* Frameworks */ = {''),
      ln 3 ''isa = PBXFrameworksBuildPhase;'',
      ln 3 ''buildActionMask = 2147483647;'',
      ln 3 ''files = ('',
      ln 3 '');'',
      ln 3 ''runOnlyForDeploymentPostprocessing = 0;'',
      ln 2 ''};'']\<close>
  by (simp add: section_simps objects_defs)

lemma section_group:
  \<open>section_lines ''PBXGroup'' (pbxproj_text rnd fs g) =
     [ln 2 (nth_uuid rnd (draws g + 1) @ '' = {''),
      ln 3 ''isa = PBXGroup;'',
      ln 3 ''children = ('',
      ln 4 (nth_uuid rnd (draws g + 2 * length fs + 7) @ '' /* '' @ project_name g @ '' */,''),
      ln 4 (nth_uuid rnd (draws g + 2 * length fs + 8) @ '' /* Products */,''),
      ln 3 '');'',
      ln 3 ''sourceTree = "<group>";'',
      ln 2 ''};'']\<close>
  by (simp add: section_simps objects_defs)

lemma is_field_ln:
  "plain x \<Longrightarrow> is_field key (ln n x) \<longleftrightarrow> n = 3 \<and> take (length key + 3) (x @ [CHR 0x0A]) = key @ '' = ''"
  by (auto simp: is_field_def indent_ln) (simp_all add: ln_def)

lemma section_project:
  \<open>section_lines ''PBXProject'' (pbxproj_text rnd fs g) =
     [ln 2 (nth_uuid rnd (draws g) @ '' /* Project object */ = {''),
      ln 3 ''isa = PBXProject;'',
      ln 3 ''attributes = {'',
      ln 4 ''BuildIndependentTargetsInParallel = 1;'',
      ln 4 ''LastSwiftUpdateCheck = 1500;'',
      ln 4 ''LastUpgradeCheck = 1500;'',
      ln 4 ''TargetAttributes = {'',
      ln 5 (nth_uuid rnd (draws g + 2) @ '' = {''),
      ln 6 ''CreatedOnToolsVersion = 15.0;'',
      ln 5 ''};'',
      ln 4 ''};'',
      ln 3 ''};'',
      ln 3 (''buildConfigurationList = '' @ nth_uuid rnd (draws g + 2 * length fs + 10) @ '' /* Build configuration list for PBXProject "'' @ project_name g @ ''" */;''),
      ln 3 ''compatibilityVersion = "Xcode 14.0";'',
      ln 3 ''developmentRegion = en;'',
      ln 3 ''hasScannedForEncodings = 0;'',
      ln 3 ''knownRegions = ('',
      ln 4 ''en,'',
      ln 4 ''Base,'',
      ln 3 '');'',
      ln 3 (''mainGroup = '' @ nth_uuid rnd (draws g + 1) @ '';''),
      ln 3 (''productRefGroup = '' @ nth_uuid rnd (draws g + 2 * length fs + 11) @ '' /* Products */;''),
      ln 3 ''projectDirPath = "";'',
      ln 3 ''projectRoot = "";'',
      ln 3 ''targets = ('',
      ln 4 (nth_uuid rnd (draws g + 2) @ '' /* '' @ project_name g @ '' */,''),
      ln 3 '');'',
      ln 2 ''};'']\<close>
  by (simp add: section_simps objects_defs)

lemma section_project_fields:
  \<open>field_ids ''buildConfigurationList'' (section_lines ''PBXProject'' (pbxproj_text rnd fs g)) =
       [nth_uuid rnd (draws g + 2 * length fs + 10)] \<and>
   field_ids ''mainGroup'' (section_lines ''PBXProject'' (pbxproj_text rnd fs g)) =
       [nth_uuid rnd (draws g + 1)] \<and>
   field_ids ''productRefGroup'' (section_lines ''PBXProject'' (pbxproj_text rnd fs g)) =
       [nth_uuid rnd (draws g + 2 * length fs + 11)]\<close>
  unfolding section_project
  by (simp add: field_ids_def is_field_ln) (simp add: ln_def)

lemma section_configuration_list:
  \<open>section_lines ''XCConfigurationList'' (pbxproj_text rnd fs g) =
     [ln 2 (nth_uuid rnd (draws g + 3) @ '' /* Build configuration list for PBXNativeTarget "'' @ project_name g @ ''" */ = {''),
      ln 3 ''isa = XCConfigurationList;'',
      ln 3 ''buildConfigurations = ('',
      ln 4 (nth_uuid rnd (draws g + 2 * length fs + 15) @ '' /* Debug */,''),
      ln 4 (nth_uuid rnd (draws g + 2 * length fs + 16) @ '' /* Release */,''),
      ln 3 '');'',
      ln 3 ''defaultConfigurationIsVisible = 0;'',
      ln 3 ''defaultConfigurationName = Release;'',
      ln 2 ''};'',
      ln 2 (nth_uuid rnd (draws g + 2 * length fs + 17) @ '' /* Build configuration list for PBXProject "'' @ project_name g @ ''" */ = {''),
      ln 3 ''isa = XCConfigurationList;'',
      ln 3 ''buildConfigurations = ('',
      ln 4 (nth_uuid rnd (draws g + 2 * length fs + 13) @ '' /* Debug */,''),
      ln 4 (nth_uuid rnd (draws g + 2 * length fs + 14) @ '' /* Release */,''),
      ln 3 '');'',
      ln 3 ''defaultConfigurationIsVisible = 0;'',
      ln 3 ''defaultConfigurationName = Release;'',
      ln 2 ''};'']\<close>
  by (simp add: section_simps template_defs)

lemma sources_entries_not_objects:
  "filter is_object_line
     (map (\<lambda>f. sources_entry (the (record_build m (minted_pairs rnd d fs) f)) f) fs) = []"
proof -
  have "\<not> is_object_line (sources_entry (the (record_build m (minted_pairs rnd d fs) f)) f)"
    if h: "f \<in> set fs" for f
  proof -
    obtain b r where "record_build m (minted_pairs rnd d fs) f = Some b"
      and "(f, b, r) \<in> set (minted_pairs rnd d fs)" using record_build_in [OF h] by blast
    then obtain k where "the (record_build m (minted_pairs rnd d fs) f) = nth_uuid rnd k"
      using minted_pairs_uuid by fastforce
    then show ?thesis by (simp add: sources_entry_def is_object_line_ln)
  qed
  then show ?thesis by (simp add: filter_empty_conv)
qed

lemma object_ids_sections:
  "object_ids (section_lines ''PBXFrameworksBuildPhase'' (pbxproj_text rnd fs g)) =
     [nth_uuid rnd (draws g + 2 * length fs + 6)] \<and>
   object_ids (section_lines ''PBXGroup'' (pbxproj_text rnd fs g)) = [nth_uuid rnd (draws g + 1)] \<and>
   object_ids (section_lines ''PBXSourcesBuildPhase'' (pbxproj_text rnd fs g)) =
     [nth_uuid rnd (draws g + 2 * length fs + 12)] \<and>
   object_ids (section_lines ''XCConfigurationList'' (pbxproj_text rnd fs g)) =
     [nth_uuid rnd (draws g + 3), nth_uuid rnd (draws g + 2 * length fs + 17)]"
  unfolding section_frameworks section_group section_sources section_configuration_list
  by (simp add: object_ids_def is_object_line_ln sources_entries_not_objects)

lemma referenced_ids:
  "map entry_id (build_phases (section_lines ''PBXNativeTarget'' (pbxproj_text rnd fs g))) =
     [nth_uuid rnd (draws g + 2 * length fs + 9), nth_uuid rnd (draws g + 2 * length fs + 6)] \<and>
   map entry_id (children (section_lines ''PBXGroup'' (pbxproj_text rnd fs g))) =
     [nth_uuid rnd (draws g + 2 * length fs + 7), nth_uuid rnd (draws g + 2 * length fs + 8)]"
  unfolding section_native_target section_group
  by (simp add: build_phases_def children_def between_def)

lemma rnd0_ids:
  "map (\<lambda>k. nth_uuid rnd0 k) [1, 3, 10, 11, 12, 13, 14, 15, 16, 21] =
     [''000000010000400080000000'', ''000000030000400080000000'', ''0000000A0000400080000000'',
      ''0000000B0000400080000000'', ''0000000C0000400080000000'', ''0000000D0000400080000000'',
      ''0000000E0000400080000000'', ''0000000F0000400080000000'', ''000000100000400080000000'',
      ''000000150000400080000000'']"
  by code_simp

text \<open>
  Claim C1, on the code.  In the run for the project \<open>Demo\<close> with the files \<open>A.swift\<close> and
  \<open>sub/B.swift\<close> and the sample random source, the \<open>Frameworks\<close> entry of the target's
  \<open>buildPhases\<close> list is the identifier under which the frameworks build phase is emitted,
  but the \<open>Sources\<close> entry is the 13th draw, while the sources build phase is emitted under
  the 16th.  In the same way the project's \<open>buildConfigurationList\<close> (14th draw) is not one
  of the two configuration lists emitted (3rd and 21st), and \<open>productRefGroup\<close> (15th) and
  the two children of the main group (11th and 12th) are not the identifier of the only
  group emitted (1st).
\<close>

theorem dangling_references_demo:
  "\<exists>out. pbxproj_lines rnd0 (collect_swift_files demo_tree) (XcodeprojGenerator ''Demo'' ''com.demo'') = Inr out \<and>
     map entry_id (build_phases (section_lines ''PBXNativeTarget'' out)) =
       [''0000000D0000400080000000'', ''0000000A0000400080000000''] \<and>
     object_ids (section_lines ''PBXFrameworksBuildPhase'' out) = [''0000000A0000400080000000''] \<and>
     object_ids (section_lines ''PBXSourcesBuildPhase'' out) = [''000000100000400080000000''] \<and>
     field_ids ''buildConfigurationList'' (section_lines ''PBXProject'' out) =
       [''0000000E0000400080000000''] \<and>
     object_ids (section_lines ''XCConfigurationList'' out) =
       [''000000030000400080000000'', ''000000150000400080000000''] \<and>
     field_ids ''productRefGroup'' (section_lines ''PBXProject'' out) = [''0000000F0000400080000000''] \<and>
     map entry_id (children (section_lines ''PBXGroup'' out)) =
       [''0000000B0000400080000000'', ''0000000C0000400080000000''] \<and>
     object_ids (section_lines ''PBXGroup'' out) = [''000000010000400080000000'']"
proof -
  let ?g = "XcodeprojGenerator ''Demo'' ''com.demo''"
  let ?fs = "collect_swift_files demo_tree"
  have n: "draws ?g = 0" "length ?fs = 2"
    by (simp_all add: XcodeprojGenerator_def collect_demo_tree)
  have ids: "nth_uuid rnd0 1 = ''000000010000400080000000''"
    "nth_uuid rnd0 3 = ''000000030000400080000000''"
    "nth_uuid rnd0 10 = ''0000000A0000400080000000''"
    "nth_uuid rnd0 11 = ''0000000B0000400080000000''"
    "nth_uuid rnd0 12 = ''0000000C0000400080000000''"
    "nth_uuid rnd0 13 = ''0000000D0000400080000000''"
    "nth_uuid rnd0 14 = ''0000000E0000400080000000''"
    "nth_uuid rnd0 15 = ''0000000F0000400080000000''"
    "nth_uuid rnd0 16 = ''000000100000400080000000''"
    "nth_uuid rnd0 21 = ''000000150000400080000000''"
    using rnd0_ids by simp_all
  have one: "nth_uuid rnd0 (Suc 0) = ''000000010000400080000000''"
    using ids(1) by simp
  show ?thesis
    using object_ids_sections [of rnd0 ?fs ?g] referenced_ids [of rnd0 ?fs ?g]
      section_project_fields [of rnd0 ?fs ?g]
    unfolding n
    by (intro exI [of _ "pbxproj_text rnd0 ?fs ?g"]) (simp add: pbxproj_lines_closed ids one)
qed

text \<open>
  The same for every run: the identifiers referred to and the identifiers defined are
  different draws of the random source.
\<close>

lemma dangling_references:
  fixes rnd fs g
  defines "out \<equiv> pbxproj_text rnd fs g" and "k \<equiv> draws g + 2 * length fs"
  shows "pbxproj_lines rnd fs g = Inr out \<and>
     map entry_id (build_phases (section_lines ''PBXNativeTarget'' out)) =
       [generate_uuid (rnd (k + 9)), generate_uuid (rnd (k + 6))] \<and>
     object_ids (section_lines ''PBXFrameworksBuildPhase'' out) = [generate_uuid (rnd (k + 6))] \<and>
     object_ids (section_lines ''PBXSourcesBuildPhase'' out) = [generate_uuid (rnd (k + 12))] \<and>
     field_ids ''buildConfigurationList'' (section_lines ''PBXProject'' out) =
       [generate_uuid (rnd (k + 10))] \<and>
     object_ids (section_lines ''XCConfigurationList'' out) =
       [generate_uuid (rnd (draws g + 3)), generate_uuid (rnd (k + 17))] \<and>
     field_ids ''productRefGroup'' (section_lines ''PBXProject'' out) = [generate_uuid (rnd (k + 11))] \<and>
     map entry_id (children (section_lines ''PBXGroup'' out)) =
       [generate_uuid (rnd (k + 7)), generate_uuid (rnd (k + 8))] \<and>
     object_ids (section_lines ''PBXGroup'' out) = [generate_uuid (rnd (draws g + 1))]"
  using object_ids_sections [of rnd fs g] referenced_ids [of rnd fs g]
    section_project_fields [of rnd fs g]
  unfolding out_def k_def by (simp add: pbxproj_lines_closed nth_uuid_def)

section \<open>Properties of the project patcher\<close>

subsection \<open>The matcher finds only texts of the pattern's language\<close>

lemma sound_intro:
  "s = m @ s' \<Longrightarrow> matches p m \<Longrightarrow> k s' = Some r \<Longrightarrow>
   \<exists>m s'. s = m @ s' \<and> matches p m \<and> k s' = Some r"
  by (intro exI conjI)

lemma matches_Lit [simp]: "matches (Lit l) m \<longleftrightarrow> m = l"
  by (subst matches.simps) auto

lemma matches_Star [simp]: "matches (Star c) w \<longleftrightarrow> list_all (in_class c) w"
  by (subst matches.simps) auto

lemma matches_Plus [simp]: "matches (Plus c) w \<longleftrightarrow> w \<noteq> [] \<and> list_all (in_class c) w"
  by (subst matches.simps) auto

lemma matches_Lazy [simp]: "matches (Lazy_star c) w \<longleftrightarrow> list_all (in_class c) w"
  by (subst matches.simps) auto

lemma matches_Seq: "matches (Seq p q) m \<longleftrightarrow> (\<exists>a b. m = a @ b \<and> matches p a \<and> matches q b)"
  by (subst matches.simps) auto

lemma matches_Cons:
  "in_class c x \<Longrightarrow> matches (Star c) m \<Longrightarrow>
   matches (Star c) (x # m) \<and> matches (Plus c) (x # m)"
  by simp

lemma matches_Lazy_Cons: "in_class c x \<Longrightarrow> matches (Lazy_star c) m \<Longrightarrow> matches (Lazy_star c) (x # m)"
  by simp

lemma rmatch_sound:
  "rmatch p s k = Some r \<Longrightarrow> \<exists>m s'. s = m @ s' \<and> matches p m \<and> k s' = Some r"
proof (induction p s k arbitrary: r rule: rmatch.induct)
  case (1 l s k)
  then have "take (length l) s = l" and k: "k (drop (length l) s) = Some r"
    by (auto simp: rmatch.simps(1) split: if_splits)
  then have "s = l @ drop (length l) s" by (metis append_take_drop_id)
  then show ?case using m_Lit k by (rule sound_intro)
next
  case (2 c k)
  then have k: "k [] = Some r" by (simp add: rmatch.simps(2))
  have "[] = [] @ ([] :: string)" by simp
  then show ?case using m_Star [of c "[]"] k by (rule sound_intro) simp
next
  case (3 c x xs k)
  show ?case
  proof (cases "in_class c x \<and> rmatch (Star c) xs k \<noteq> None")
    case True
    then have i: "in_class c x" and "rmatch (Star c) xs k = Some r"
      using "3.prems" by (auto simp: rmatch.simps(3))
    then obtain m s' where xs: "xs = m @ s'" and m: "matches (Star c) m" and k: "k s' = Some r"
      using "3.IH" by blast
    have "x # xs = (x # m) @ s'" using xs by simp
    then show ?thesis using matches_Cons [OF i m, THEN conjunct1] k by (rule sound_intro)
  next
    case False
    then have k: "k (x # xs) = Some r"
      using "3.prems" by (auto simp: rmatch.simps(3) split: if_splits)
    have "x # xs = [] @ (x # xs)" by simp
    then show ?thesis using m_Star [of c "[]"] k by (rule sound_intro) simp
  qed
next
  case (4 c k)
  then show ?case by (simp add: rmatch.simps(4))
next
  case (5 c x xs k)
  then have i: "in_class c x" and "rmatch (Star c) xs k = Some r"
    by (auto simp: rmatch.simps(5) split: if_splits)
  then obtain m s' where xs: "xs = m @ s'" and m: "matches (Star c) m" and k: "k s' = Some r"
    using "5.IH" by blast
  have "x # xs = (x # m) @ s'" using xs by simp
  then show ?case using matches_Cons [OF i m, THEN conjunct2] k by (rule sound_intro)
next
  case (6 c k)
  then have k: "k [] = Some r" by (simp add: rmatch.simps(6))
  have "[] = [] @ ([] :: string)" by simp
  then show ?case using m_Lazy [of c "[]"] k by (rule sound_intro) simp
next
  case (7 c x xs k)
  show ?case
  proof (cases "k (x # xs)")
    case (Some r')
    then have k: "k (x # xs) = Some r" using "7.prems" by (simp add: rmatch.simps(7))
    have "x # xs = [] @ (x # xs)" by simp
    then show ?thesis using m_Lazy [of c "[]"] k by (rule sound_intro) simp
  next
    case None
    then have i: "in_class c x" and "rmatch (Lazy_star c) xs k = Some r"
      using "7.prems" by (auto simp: rmatch.simps(7) split: if_splits)
    then obtain m s' where xs: "xs = m @ s'" and m: "matches (Lazy_star c) m" and k: "k s' = Some r"
      using "7.IH" [OF None] by blast
    have "x # xs = (x # m) @ s'" using xs by simp
    then show ?thesis using matches_Lazy_Cons [OF i m] k by (rule sound_intro)
  qed
next
  case (8 p q s k)
  then have "rmatch p s (\<lambda>s'. rmatch q s' k) = Some r" by (simp add: rmatch.simps(8))
  then have "\<exists>m s'. s = m @ s' \<and> matches p m \<and> rmatch q s' k = Some r"
    by (rule "8.IH"(2))
  then obtain m1 s1 where s: "s = m1 @ s1" and m1: "matches p m1" and q: "rmatch q s1 k = Some r"
    by (elim exE conjE)
  have "\<exists>m s'. s1 = m @ s' \<and> matches q m \<and> k s' = Some r"
    using q by (rule "8.IH"(1))
  then obtain m2 s2 where s1: "s1 = m2 @ s2" and m2: "matches q m2" and k: "k s2 = Some r"
    by (elim exE conjE)
  have "s = (m1 @ m2) @ s2" using s s1 by simp
  then show ?case using m_Seq [OF m1 m2] k by (rule sound_intro)
next
  case (9 p s k)
  let ?k = "\<lambda>s'. if length s' < length s then rmatch (Rep p) s' k else None"
  have e: "rmatch (Rep p) s k = (case rmatch p s ?k of Some r \<Rightarrow> Some r | None \<Rightarrow> k s)"
    by (rule rmatch.simps)
  show ?case
  proof (cases "rmatch p s ?k")
    case None
    then have k: "k s = Some r" using "9.prems" unfolding e by simp
    have "s = [] @ s" by simp
    then show ?thesis using m_Rep0 k by (rule sound_intro)
  next
    case (Some r')
    then have "rmatch p s ?k = Some r" using "9.prems" unfolding e by simp
    then have "\<exists>m s'. s = m @ s' \<and> matches p m \<and> ?k s' = Some r"
      by (rule "9.IH"(2))
    then obtain m1 s1 where s: "s = m1 @ s1" and m1: "matches p m1" and q: "?k s1 = Some r"
      by (elim exE conjE)
    have l: "length s1 < length s" using q by (simp split: if_splits)
    have "rmatch (Rep p) s1 k = Some r" using q l by simp
    then have "\<exists>m s'. s1 = m @ s' \<and> matches (Rep p) m \<and> k s' = Some r"
      by (rule "9.IH"(1) [OF l])
    then obtain m2 s2 where s1: "s1 = m2 @ s2" and m2: "matches (Rep p) m2" and k: "k s2 = Some r"
      by (elim exE conjE)
    have "s = (m1 @ m2) @ s2" using s s1 by simp
    then show ?thesis using m_RepS [OF m1 m2] k by (rule sound_intro)
  qed
qed

lemma match_at_sound: "match_at p s = Some rest \<Longrightarrow> \<exists>m. s = m @ rest \<and> matches p m"
  unfolding match_at_def by (drule rmatch_sound) auto

lemma search_sound:
  "search p b s = Some (x, m, r) \<Longrightarrow> x @ m @ r = b @ s \<and> matches p m"
proof (induction s arbitrary: b)
  case Nil
  then obtain rest where a: "match_at p [] = Some rest" and b: "x = b" "m = []" "r = rest"
    by (auto split: option.splits)
  from match_at_sound [OF a] show ?case using b by auto
next
  case (Cons c cs)
  show ?case
  proof (cases "match_at p (c # cs)")
    case None
    then have "search p (b @ [c]) cs = Some (x, m, r)" using Cons.prems by simp
    from Cons.IH [OF this] show ?thesis by simp
  next
    case (Some rest)
    then have b: "x = b" "m = take (length (c # cs) - length rest) (c # cs)" "r = rest"
      using Cons.prems by auto
    obtain m' where m': "c # cs = m' @ rest" "matches p m'"
      using match_at_sound [OF Some] by blast
    then have "take (length (c # cs) - length rest) (c # cs) = m'" by simp
    then show ?thesis using b m' by simp
  qed
qed

lemma re_sub_once_cases:
  assumes "re_sub_once p line c = Inr out"
  shows "out = c \<or> (\<exists>x m r. c = x @ m @ r \<and> matches p m \<and> out = x @ m @ line @ [CHR 0x0A] @ r)"
proof (cases "search p [] c")
  case None
  then show ?thesis using assms by (auto simp: re_sub_once_def split: if_splits)
next
  case (Some t)
  obtain x m r where t: "t = (x, m, r)" by (cases t)
  have "x @ m @ r = c \<and> matches p m" using search_sound [of p "[]" c x m r] Some t by simp
  moreover have "out = x @ m @ line @ [CHR 0x0A] @ r"
    using assms Some t by (auto simp: re_sub_once_def split: if_splits)
  ultimately show ?thesis by blast
qed

lemma re_sub_once_subseq: "re_sub_once p line c = Inr out \<Longrightarrow> subseq c out"
proof -
  assume "re_sub_once p line c = Inr out"
  then consider "out = c"
    | x m r where "c = x @ m @ r" "out = x @ m @ line @ [CHR 0x0A] @ r"
    using re_sub_once_cases by blast
  then show ?thesis
  proof cases
    case 1
    then show ?thesis by simp
  next
    case 2
    have "subseq ((x @ m) @ r) ((x @ m) @ (line @ [CHR 0x0A]) @ r)"
      by (intro list_emb_append_mono subseq_order.order_refl list_emb_append2)
    then show ?thesis using 2 by simp
  qed
qed

lemma re_sub_once_length: "re_sub_once p line c = Inr out \<Longrightarrow> length c \<le> length out"
  by (drule re_sub_once_subseq) (rule list_emb_length)

subsection \<open>Substrings and replacement\<close>

lemma contains_iff: "contains sub s \<longleftrightarrow> (\<exists>a b. s = a @ sub @ b)"
proof (induction s)
  case Nil
  show ?case by auto
next
  case (Cons c cs)
  show ?case
  proof
    assume "contains sub (c # cs)"
    then consider "take (length sub) (c # cs) = sub" | "contains sub cs" by auto
    then show "\<exists>a b. c # cs = a @ sub @ b"
    proof cases
      case 1
      then have "c # cs = [] @ sub @ drop (length sub) (c # cs)"
        by (metis append_Nil append_take_drop_id)
      then show ?thesis by blast
    next
      case 2
      then obtain a b where "cs = a @ sub @ b" using Cons.IH by blast
      then have "c # cs = (c # a) @ sub @ b" by simp
      then show ?thesis by blast
    qed
  next
    assume "\<exists>a b. c # cs = a @ sub @ b"
    then obtain a b where e: "c # cs = a @ sub @ b" by blast
    show "contains sub (c # cs)"
    proof (cases a)
      case Nil
      then have "take (length sub) (c # cs) = sub" using e by (metis append_Nil append_eq_conv_conj)
      then show ?thesis by simp
    next
      case (Cons a1 as)
      then have "cs = as @ sub @ b" using e by simp
      then have "contains sub cs" using Cons.IH by blast
      then show ?thesis by simp
    qed
  qed
qed

lemma contains_appendI: "contains sub s \<Longrightarrow> contains sub (a @ s @ b)"
  unfolding contains_iff by (metis append.assoc)

lemma replace_Nil [simp]: "old \<noteq> [] \<Longrightarrow> replace old new [] = []"
  by (subst replace.simps) simp

lemma replace_hit:
  "old \<noteq> [] \<Longrightarrow> s \<noteq> [] \<Longrightarrow> take (length old) s = old \<Longrightarrow>
   replace old new s = new @ replace old new (drop (length old) s)"
  by (subst replace.simps) simp

lemma replace_miss:
  "old \<noteq> [] \<Longrightarrow> s \<noteq> [] \<Longrightarrow> take (length old) s \<noteq> old \<Longrightarrow>
   replace old new s = hd s # replace old new (tl s)"
  by (subst replace.simps) simp

lemma replace_absent: "\<not> contains old s \<Longrightarrow> replace old new s = s"
proof (induction s)
  case Nil
  then have "old \<noteq> []" by auto
  then show ?case by simp
next
  case (Cons c cs)
  then have t: "take (length old) (c # cs) \<noteq> old" and n: "\<not> contains old cs" by auto
  then have o: "old \<noteq> []" by auto
  show ?case using replace_miss [OF o _ t] Cons.IH [OF n] by simp
qed

lemma subseq_interleave: "subseq s (new @ concat (map (\<lambda>c. c # new) s))"
proof (induction s)
  case Nil
  show ?case by simp
next
  case (Cons c cs)
  have "subseq (c # cs) (c # new @ concat (map (\<lambda>c. c # new) cs))"
    using Cons.IH by simp
  then have "subseq (c # cs) (new @ c # new @ concat (map (\<lambda>c. c # new) cs))"
    by (rule list_emb_append2)
  then show ?case by simp
qed

lemma replace_subseq: "subseq s (replace old (ins @ old) s)"
proof (induction old "ins @ old" s rule: replace.induct)
  case (1 old s)
  show ?case
  proof (cases "old = []")
    case True
    then show ?thesis by (subst replace.simps) (simp add: subseq_interleave)
  next
    case o: False
    show ?thesis
    proof (cases "s = []")
      case True
      then show ?thesis using o by simp
    next
      case s: False
      show ?thesis
      proof (cases "take (length old) s = old")
        case True
        have "subseq (drop (length old) s) (replace old (ins @ old) (drop (length old) s))"
          using "1.hyps"(1) [OF o s True] .
        then have "subseq (old @ drop (length old) s)
                     (ins @ old @ replace old (ins @ old) (drop (length old) s))"
          by (intro list_emb_append2 list_emb_append_mono subseq_order.order_refl)
        moreover have "old @ drop (length old) s = s" using True by (metis append_take_drop_id)
        ultimately show ?thesis unfolding replace_hit [OF o s True] by simp
      next
        case False
        have "subseq (tl s) (replace old (ins @ old) (tl s))"
          using "1.hyps"(2) [OF o s False] .
        then have "subseq (hd s # tl s) (hd s # replace old (ins @ old) (tl s))" by simp
        then show ?thesis unfolding replace_miss [OF o s False] using s by simp
      qed
    qed
  qed
qed

lemma replace_contains:
  "old \<noteq> [] \<Longrightarrow> contains old s \<Longrightarrow>
   contains old (replace old (ins @ old) s) \<and>
   length s + length ins \<le> length (replace old (ins @ old) s)"
proof (induction s)
  case Nil
  then show ?case by simp
next
  case (Cons c cs)
  show ?case
  proof (cases "take (length old) (c # cs) = old")
    case True
    let ?rest = "replace old (ins @ old) (drop (length old) (c # cs))"
    have r: "replace old (ins @ old) (c # cs) = (ins @ old) @ ?rest"
      using replace_hit [OF Cons.prems(1) _ True] by simp
    have "contains old (ins @ old @ ?rest)" using contains_iff by blast
    moreover have "length (drop (length old) (c # cs)) \<le> length ?rest"
      using replace_subseq by (rule list_emb_length)
    moreover have "length (c # cs) = length old + length (drop (length old) (c # cs))"
      using True by (metis append_take_drop_id length_append)
    ultimately show ?thesis unfolding r by simp
  next
    case False
    then have "contains old cs" using Cons.prems(2) by simp
    then have "contains old (replace old (ins @ old) cs)"
      and "length cs + length ins \<le> length (replace old (ins @ old) cs)"
      using Cons.IH [OF Cons.prems(1)] by simp_all
    moreover have "replace old (ins @ old) (c # cs) = c # replace old (ins @ old) cs"
      using replace_miss [OF Cons.prems(1) _ False] by simp
    ultimately show ?thesis by simp
  qed
qed

subsection \<open>The identifiers and lines of a patch run\<close>

lemma generate_uuid_no_backslash: "CHR 0x5C \<notin> set (generate_uuid r)"
proof -
  have "CHR 0x5C \<notin> set ''0123456789ABCDEF''" by simp
  then show ?thesis using set_generate_uuid [of r] by blast
qed

lemma assign_uuids_keeps:
  "assign_uuids rnd files k (r0, b0) = (refs, builds) \<Longrightarrow>
   (case r0 n of None \<Rightarrow> False | Some u \<Rightarrow> CHR 0x5C \<notin> set u) \<Longrightarrow>
   (case b0 n of None \<Rightarrow> False | Some u \<Rightarrow> CHR 0x5C \<notin> set u) \<Longrightarrow>
   (case refs n of None \<Rightarrow> False | Some u \<Rightarrow> CHR 0x5C \<notin> set u) \<and>
   (case builds n of None \<Rightarrow> False | Some u \<Rightarrow> CHR 0x5C \<notin> set u)"
proof (induction files arbitrary: k r0 b0)
  case Nil
  then show ?case by simp
next
  case (Cons f files)
  have a: "assign_uuids rnd files (k + 2)
             (r0(name f \<mapsto> generate_uuid (rnd k)), b0(name f \<mapsto> generate_uuid (rnd (Suc k))))
           = (refs, builds)"
    using Cons.prems(1) by simp
  show ?case
    by (rule Cons.IH [OF a]) (use Cons.prems(2,3) in \<open>auto simp: generate_uuid_no_backslash\<close>)
qed

lemma assign_uuids_minted:
  "assign_uuids rnd files k (r0, b0) = (refs, builds) \<Longrightarrow> minted refs files \<and> minted builds files"
proof (induction files arbitrary: k r0 b0)
  case Nil
  show ?case by (simp add: minted_def)
next
  case (Cons f files)
  let ?r = "r0(name f \<mapsto> generate_uuid (rnd k))" and ?b = "b0(name f \<mapsto> generate_uuid (rnd (Suc k)))"
  have a: "assign_uuids rnd files (k + 2) (?r, ?b) = (refs, builds)" using Cons.prems by simp
  have "(case refs (name f) of None \<Rightarrow> False | Some u \<Rightarrow> CHR 0x5C \<notin> set u) \<and>
        (case builds (name f) of None \<Rightarrow> False | Some u \<Rightarrow> CHR 0x5C \<notin> set u)"
    by (rule assign_uuids_keeps [OF a]) (simp_all add: generate_uuid_no_backslash)
  then show ?case using Cons.IH [OF a] by (simp add: minted_def)
qed

lemma sources_line_ok: "CHR 0x5C \<notin> set u \<Longrightarrow> CHR 0x5C \<notin> set n \<Longrightarrow> CHR 0x5C \<notin> set (sources_line u n)"
  by (simp add: sources_line_def)

lemma group_line_ok: "CHR 0x5C \<notin> set u \<Longrightarrow> CHR 0x5C \<notin> set n \<Longrightarrow> CHR 0x5C \<notin> set (group_line u n)"
  by (simp add: group_line_def)

lemma re_sub_once_total:
  "CHR 0x5C \<notin> set line \<Longrightarrow> \<exists>out. re_sub_once p line c = Inr out"
  by (auto simp: re_sub_once_def split: option.splits)

lemma re_sub_once_no_match:
  "CHR 0x5C \<notin> set line \<Longrightarrow> search p [] c = None \<Longrightarrow> re_sub_once p line c = Inr c"
  by (simp add: re_sub_once_def)

lemma file_ref_insertions_total:
  "minted refs files \<Longrightarrow> \<exists>ls. file_ref_insertions refs files = Inr ls"
  by (induction files) (auto simp: minted_def lookup_def split: option.splits)

lemma build_file_insertions_total:
  "minted refs files \<Longrightarrow> minted builds files \<Longrightarrow> \<exists>ls. build_file_insertions refs builds files = Inr ls"
  by (induction files) (auto simp: minted_def lookup_def split: option.splits)

lemma insert_sources_total:
  "minted builds files \<Longrightarrow> names_ok files \<Longrightarrow>
   \<exists>out. insert_sources builds files c = Inr out \<and> subseq c out"
proof (induction files arbitrary: c)
  case Nil
  show ?case by simp
next
  case (Cons f files)
  then obtain u where u: "builds (name f) = Some u" "CHR 0x5C \<notin> set u"
    and n: "CHR 0x5C \<notin> set (name f)" and m: "minted builds files" and o: "names_ok files"
    by (auto simp: minted_def names_ok_def split: option.splits)
  obtain c' where c': "re_sub_once sources_pattern (sources_line u (name f)) c = Inr c'"
    using re_sub_once_total [OF sources_line_ok [OF u(2) n]] by blast
  obtain out where out: "insert_sources builds files c' = Inr out" "subseq c' out"
    using Cons.IH [OF m o] by blast
  have "subseq c out" using re_sub_once_subseq [OF c'] out(2) by (rule subseq_order.order_trans)
  then show ?case using u c' out by (simp add: lookup_def)
qed

lemma insert_group_total:
  "minted refs files \<Longrightarrow> names_ok files \<Longrightarrow>
   \<exists>out. insert_group keyword p refs files c = Inr out \<and> subseq c out"
proof (induction files arbitrary: c)
  case Nil
  show ?case by simp
next
  case (Cons f files)
  then obtain u where u: "refs (name f) = Some u" "CHR 0x5C \<notin> set u"
    and n: "CHR 0x5C \<notin> set (name f)" and m: "minted refs files" and o: "names_ok files"
    by (auto simp: minted_def names_ok_def split: option.splits)
  show ?case
  proof (cases "contains keyword (path f)")
    case False
    then show ?thesis using Cons.IH [OF m o, of c] by simp
  next
    case True
    obtain c' where c': "re_sub_once p (group_line u (name f)) c = Inr c'"
      using re_sub_once_total [OF group_line_ok [OF u(2) n]] by blast
    obtain out where out: "insert_group keyword p refs files c' = Inr out" "subseq c' out"
      using Cons.IH [OF m o] by blast
    have "subseq c out" using re_sub_once_subseq [OF c'] out(2) by (rule subseq_order.order_trans)
    then show ?thesis using True u c' out by (simp add: lookup_def)
  qed
qed

lemma insert_before_subseq: "subseq c (insert_before marker ls c)"
  unfolding insert_before_def Let_def by (rule replace_subseq)

text \<open>
  Claim C10.  Where no inserted line holds a backslash (the names of the descriptors hold
  none), the patcher returns a text, and the text read is a subsequence of it: every
  character of the input stands in the output, in the same order.
\<close>

theorem patch_insert_only:
  assumes "names_ok files"
  shows "\<exists>out. add_files_to_xcode_project rnd files content = Inr out \<and> subseq content out"
proof -
  obtain refs builds where a: "assign_uuids rnd files 0 (Map.empty, Map.empty) = (refs, builds)"
    by (cases "assign_uuids rnd files 0 (Map.empty, Map.empty)")
  have m: "minted refs files" "minted builds files" using assign_uuids_minted [OF a] by simp_all
  obtain l1 where l1: "file_ref_insertions refs files = Inr l1"
    using file_ref_insertions_total [OF m(1)] by blast
  obtain l2 where l2: "build_file_insertions refs builds files = Inr l2"
    using build_file_insertions_total [OF m] by blast
  let ?c1 = "insert_before file_ref_section l1 content"
  let ?c2 = "insert_before build_file_section l2 ?c1"
  obtain c3 where c3: "insert_sources builds files ?c2 = Inr c3" "subseq ?c2 c3"
    using insert_sources_total [OF m(2) assms] by blast
  obtain c4 where c4: "insert_group ''Services'' services_group_pattern refs files c3 = Inr c4"
    "subseq c3 c4" using insert_group_total [OF m(1) assms] by blast
  obtain c5 where c5: "insert_group ''Security'' security_group_pattern refs files c4 = Inr c5"
    "subseq c4 c5" using insert_group_total [OF m(1) assms] by blast
  have "subseq content ?c1" by (rule insert_before_subseq)
  also have "subseq ?c1 ?c2" by (rule insert_before_subseq)
  also note c3(2)
  also note c4(2)
  also note c5(2)
  finally have "subseq content c5" .
  moreover have "add_files_to_xcode_project rnd files content = Inr c5"
    unfolding add_files_to_xcode_project_def by (simp add: a l1 l2 c3 c4 c5)
  ultimately show ?thesis by blast
qed

subsection \<open>Absent anchors\<close>

lemma matches_prefix: "matches (Seq (Lit l) q) m \<Longrightarrow> \<exists>t. m = l @ t"
  by (auto simp: matches_Seq)

lemma search_contains:
  assumes "search (Seq (Lit l) q) [] c \<noteq> None"
  shows "contains l c"
proof -
  obtain x m r where "search (Seq (Lit l) q) [] c = Some (x, m, r)" using assms by auto
  then have "x @ m @ r = c" and "matches (Seq (Lit l) q) m" using search_sound by fastforce+
  then obtain t where "c = x @ l @ (t @ r)" using matches_prefix by fastforce
  then show ?thesis unfolding contains_iff by blast
qed

lemma insert_sources_no_match:
  "minted builds files \<Longrightarrow> names_ok files \<Longrightarrow> search sources_pattern [] c = None \<Longrightarrow>
   insert_sources builds files c = Inr c"
proof (induction files)
  case Nil
  show ?case by simp
next
  case (Cons f files)
  then obtain u where u: "builds (name f) = Some u" "CHR 0x5C \<notin> set u"
    and n: "CHR 0x5C \<notin> set (name f)" and m: "minted builds files" and o: "names_ok files"
    by (auto simp: minted_def names_ok_def split: option.splits)
  have "re_sub_once sources_pattern (sources_line u (name f)) c = Inr c"
    using re_sub_once_no_match [OF sources_line_ok [OF u(2) n] Cons.prems(3)] .
  then show ?case using u Cons.IH [OF m o Cons.prems(3)] by (simp add: lookup_def)
qed

lemma insert_group_no_match:
  "minted refs files \<Longrightarrow> names_ok files \<Longrightarrow> search p [] c = None \<Longrightarrow>
   insert_group keyword p refs files c = Inr c"
proof (induction files)
  case Nil
  show ?case by simp
next
  case (Cons f files)
  then obtain u where u: "refs (name f) = Some u" "CHR 0x5C \<notin> set u"
    and n: "CHR 0x5C \<notin> set (name f)" and m: "minted refs files" and o: "names_ok files"
    by (auto simp: minted_def names_ok_def split: option.splits)
  have "re_sub_once p (group_line u (name f)) c = Inr c"
    using re_sub_once_no_match [OF group_line_ok [OF u(2) n] Cons.prems(3)] .
  then show ?case using u Cons.IH [OF m o Cons.prems(3)] by (simp add: lookup_def)
qed

lemma insert_before_absent: "\<not> contains marker c \<Longrightarrow> insert_before marker ls c = c"
  unfolding insert_before_def Let_def by (rule replace_absent)

text \<open>
  Claim C7.  For the identifiers of a run over descriptors whose names hold no backslash:
  a step whose marker does not occur in the text, or whose pattern has no match in it,
  returns the text as it is, and raises nothing.  A pattern has no match where its
  literal anchor does not occur.  Where nothing occurs, the whole function returns the
  text it read.
\<close>

theorem absent_anchor_is_no_op:
  fixes rnd :: rand and files :: "descriptor list" and content :: string and ls :: "string list"
  assumes ok: "names_ok files"
  defines "refs \<equiv> fst (assign_uuids rnd files 0 (Map.empty, Map.empty))"
    and "builds \<equiv> snd (assign_uuids rnd files 0 (Map.empty, Map.empty))"
  shows
    "(\<not> contains file_ref_section content \<longrightarrow>
        insert_before file_ref_section ls content = content) \<and>
     (\<not> contains build_file_section content \<longrightarrow>
        insert_before build_file_section ls content = content) \<and>
     (search sources_pattern [] content = None \<longrightarrow>
        insert_sources builds files content = Inr content) \<and>
     (search services_group_pattern [] content = None \<longrightarrow>
        insert_group ''Services'' services_group_pattern refs files content = Inr content) \<and>
     (search security_group_pattern [] content = None \<longrightarrow>
        insert_group ''Security'' security_group_pattern refs files content = Inr content) \<and>
     (\<not> contains ''files = ('' content \<longrightarrow> search sources_pattern [] content = None) \<and>
     (\<not> contains ''Core/Services'' content \<longrightarrow> search services_group_pattern [] content = None) \<and>
     (\<not> contains ''Core/Security'' content \<longrightarrow> search security_group_pattern [] content = None) \<and>
     (\<not> contains file_ref_section content \<and> \<not> contains build_file_section content \<and>
      search sources_pattern [] content = None \<and>
      search services_group_pattern [] content = None \<and>
      search security_group_pattern [] content = None \<longrightarrow>
        add_files_to_xcode_project rnd files content = Inr content)"
proof -
  have a: "assign_uuids rnd files 0 (Map.empty, Map.empty) = (refs, builds)"
    by (simp add: refs_def builds_def)
  have m: "minted refs files" "minted builds files" using assign_uuids_minted [OF a] by simp_all
  have whole: "add_files_to_xcode_project rnd files content = Inr content"
    if h: "\<not> contains file_ref_section content" "\<not> contains build_file_section content"
      "search sources_pattern [] content = None"
      "search services_group_pattern [] content = None"
      "search security_group_pattern [] content = None"
  proof -
    obtain l1 where l1: "file_ref_insertions refs files = Inr l1"
      using file_ref_insertions_total [OF m(1)] by blast
    obtain l2 where l2: "build_file_insertions refs builds files = Inr l2"
      using build_file_insertions_total [OF m] by blast
    show ?thesis
      unfolding add_files_to_xcode_project_def
      by (simp add: a l1 l2 insert_before_absent h insert_sources_no_match [OF m(2) ok]
          insert_group_no_match [OF m(1) ok])
  qed
  show ?thesis
    using insert_before_absent insert_sources_no_match [OF m(2) ok]
      insert_group_no_match [OF m(1) ok] whole
      search_contains [of "''files = (''" entries_tail content]
      search_contains [of "''Core/Services''" _ content]
      search_contains [of "''Core/Security''" _ content]
    unfolding sources_pattern_def services_group_pattern_def security_group_pattern_def
    by blast
qed

subsection \<open>The patcher on the sample texts\<close>

text \<open>
  Claim C5, on the code.  The text is a sources build phase as the project synthesizer and
  Xcode write it.  The pattern's \<^verbatim>\<open>(?:[^;]+;\s*)*\<close> takes each run of text up to
  a semicolon as an existing entry, while the entries of a files list end in commas: the
  first such run reaches over the two entries' end \<open>);\<close>, and the following ones over the
  rest of the object.  The line for \<open>X.swift\<close> is put behind the closing \<open>};\<close> of the build
  phase, not behind the entries of its files list.
\<close>

theorem sources_line_lands_behind_phase:
  "add_files_to_xcode_project rnd0 [x_swift] build_phase_text = Inr (concat
     [ln 0 ''/* Begin PBXSourcesBuildPhase section */'',
      ln 2 ''5C0000000000000000000001 /* Sources */ = {'',
      ln 3 ''isa = PBXSourcesBuildPhase;'',
      ln 3 ''buildActionMask = 2147483647;'',
      ln 3 ''files = ('',
      ln 4 ''5C0000000000000000000002 /* Old.swift in Sources */,'',
      ln 3 '');'',
      ln 3 ''runOnlyForDeploymentPostprocessing = 0;'',
      ln 2 ''};'',
      ln 4 ''000000010000400080000000 /* X.swift in Sources */,'',
      ln 0 ''/* End PBXSourcesBuildPhase section */''])"
  by code_simp

text \<open>
  Claim C6, on the code.  The same repetition ends the two group patterns.  In a group
  whose opening line holds both \<open>Core/Services\<close> and \<open>children = (\<close>, the line for \<open>X.swift\<close>,
  whose path contains \<open>Services\<close>, is put behind the closing \<open>};\<close> of the group, not into
  its list of children.
\<close>

theorem group_line_lands_behind_group:
  \<open>add_files_to_xcode_project rnd0 [x_swift] group_text = Inr (concat
     [ln 0 ''/* Begin PBXGroup section */'',
      ln 2 ''5C0000000000000000000003 /* Core/Services */ = {isa = PBXGroup; children = ('',
      ln 4 ''5C0000000000000000000004 /* Old.swift */,'',
      ln 3 '');'',
      ln 3 ''path = Core/Services;'',
      ln 3 ''sourceTree = "<group>";'',
      ln 2 ''};'',
      ln 4 ''000000000000400080000000 /* X.swift */,'',
      ln 0 ''/* End PBXGroup section */''])\<close>
  by code_simp

lemma plain_text_facts:
  "names_ok [x_swift] \<and>
   \<not> contains file_ref_section plain_text \<and> \<not> contains build_file_section plain_text \<and>
   search sources_pattern [] plain_text = None \<and>
   search services_group_pattern [] plain_text = None \<and>
   search security_group_pattern [] plain_text = None \<and>
   \<not> contains ''files = ('' plain_text \<and> \<not> contains ''Core/Services'' plain_text \<and>
   \<not> contains ''Core/Security'' plain_text"
  by code_simp

theorem absent_anchor_is_no_op_witness:
  "names_ok [x_swift] \<and>
   \<not> contains file_ref_section plain_text \<and> \<not> contains build_file_section plain_text \<and>
   search sources_pattern [] plain_text = None \<and>
   search services_group_pattern [] plain_text = None \<and>
   search security_group_pattern [] plain_text = None \<and>
   \<not> contains ''files = ('' plain_text \<and> \<not> contains ''Core/Services'' plain_text \<and>
   \<not> contains ''Core/Security'' plain_text \<and>
   insert_before file_ref_section [] plain_text = plain_text \<and>
   insert_before build_file_section [] plain_text = plain_text \<and>
   insert_sources (snd (assign_uuids rnd0 [x_swift] 0 (Map.empty, Map.empty))) [x_swift] plain_text
     = Inr plain_text \<and>
   insert_group ''Services'' services_group_pattern
     (fst (assign_uuids rnd0 [x_swift] 0 (Map.empty, Map.empty))) [x_swift] plain_text = Inr plain_text \<and>
   insert_group ''Security'' security_group_pattern
     (fst (assign_uuids rnd0 [x_swift] 0 (Map.empty, Map.empty))) [x_swift] plain_text = Inr plain_text \<and>
   add_files_to_xcode_project rnd0 [x_swift] plain_text = Inr plain_text"
  using plain_text_facts
    absent_anchor_is_no_op [where files = "[x_swift]" and rnd = rnd0 and content = plain_text
      and ls = "[]"]
  by blast

lemma names_ok_x_swift: "names_ok [x_swift]"
  by (simp add: names_ok_def x_swift_def)

theorem patch_insert_only_witness:
  "names_ok [x_swift] \<and>
   (\<exists>out. add_files_to_xcode_project rnd0 [x_swift] group_text = Inr out \<and> subseq group_text out)"
  using names_ok_x_swift patch_insert_only [OF names_ok_x_swift, where rnd = rnd0 and content = group_text]
  by (rule conjI)

text \<open>
  The part of claim C6 that holds by design: a descriptor whose path does not contain the
  keyword leaves the text of the group step as it is.
\<close>

lemma insert_group_skips:
  "list_all (\<lambda>f. \<not> contains keyword (path f)) files \<Longrightarrow>
   insert_group keyword p refs files c = Inr c"
  by (induction files) simp_all

end
